theory Spec2Isabelle
  imports Complex_Main
begin

section \<open>JavaScript values as seen by \<open>src/lib/aiError.ts\<close>\<close>

text \<open>
  The classifier receives a value of type \<open>unknown\<close>. The model keeps every kind of value
  that \<open>typeof\<close> distinguishes. A number is a finite value or one of the three special
  values; finite doubles are embedded in the reals, which is exact for the only operations
  the code applies to a number (\<open>===\<close> against an integer literal and \<open>>= 500\<close>).

  An ordinary object or function (\<open>Object\<close>, \<open>Function\<close>) is one on which no operation
  throws. It carries two things: the list of SDK classes for which \<open>instanceof\<close> holds
  (the class hierarchy of the \<open>ai\<close> package is not part of this repository, so nothing is
  assumed about which class extends which), and its properties as an association list
  (every property visible through the prototype chain; the first binding of a key is the
  one read; a property is a data property or an accessor that returns its value).

  An exotic object (\<open>Exotic\<close>) is an object or function on which an operation may throw:
  an object with a throwing accessor, a \<open>Proxy\<close> with throwing traps, a revoked \<open>Proxy\<close>.
  It is given by what the program can observe of it: whether it is callable, the outcome
  of the walk of its prototype chain (what \<open>instanceof\<close> triggers), the outcome of
  \<open>k in o\<close> for each key and the outcome of the read \<open>o.k\<close> for each key. An outcome is
  \<open>Inr\<close> of the answer or \<open>Inl\<close> of the value thrown. Nothing relates the three: a
  \<open>Proxy\<close> may deny having a key that it answers a read of. An operation has the same
  outcome each time it is applied during one call.
\<close>

datatype number = Finite real | NaN | PosInfinity | NegInfinity

datatype sdk_class =
    AISDKError
  | APICallError
  | EmptyResponseBodyError
  | InvalidPromptError
  | InvalidResponseDataError
  | JSONParseError
  | LoadAPIKeyError
  | NoContentGeneratedError
  | NoSuchModelError
  | TypeValidationError
  | UnsupportedFunctionalityError

datatype val =
    Undefined
  | Null
  | Boolean bool
  | Number number
  | BigInt int
  | String string
  | Symbol string
  | Object "sdk_class list" "(string \<times> val) list"
  | Function "sdk_class list" "(string \<times> val) list"
  | Exotic bool "val + sdk_class list" "string \<Rightarrow> val + bool" "string \<Rightarrow> val + val"

text \<open>What a JavaScript operation can throw: a \<open>TypeError\<close> of the runtime (a read on
  \<open>null\<close> or \<open>undefined\<close>, \<open>in\<close> on a primitive), or the value thrown by an accessor, a
  trap or a collaborator.\<close>

datatype exn = TypeError | Thrown val

definition bindE :: "exn + 'a \<Rightarrow> ('a \<Rightarrow> exn + 'b) \<Rightarrow> exn + 'b" where
  "bindE m f = (case m of Inl e \<Rightarrow> Inl e | Inr x \<Rightarrow> f x)"

text \<open>\<open>a || b\<close> on two tests that may throw: \<open>b\<close> is evaluated only when \<open>a\<close> is false.\<close>

definition orElse :: "exn + bool \<Rightarrow> exn + bool \<Rightarrow> exn + bool" where
  "orElse a b = bindE a (\<lambda>x. if x then Inr True else b)"

text \<open>The outcome of an operation on an exotic object, as a result of the program.\<close>

definition outcome :: "val + 'a \<Rightarrow> exn + 'a" where
  "outcome r = (case r of Inl v \<Rightarrow> Inl (Thrown v) | Inr x \<Rightarrow> Inr x)"

subsection \<open>Primitive operations of the language\<close>

fun typeof :: "val \<Rightarrow> string" where
  "typeof Undefined = ''undefined''"
| "typeof Null = ''object''"
| "typeof (Boolean b) = ''boolean''"
| "typeof (Number n) = ''number''"
| "typeof (BigInt i) = ''bigint''"
| "typeof (String s) = ''string''"
| "typeof (Symbol s) = ''symbol''"
| "typeof (Object cs ps) = ''object''"
| "typeof (Function cs ps) = ''function''"
| "typeof (Exotic callable p h g) = (if callable then ''function'' else ''object'')"

text \<open>\<open>v.k\<close>: throws on \<open>null\<close> and \<open>undefined\<close>; a primitive has none of the keys this
  program reads (\<open>name\<close>, \<open>message\<close>, \<open>stack\<close>, \<open>cause\<close>, \<open>status\<close>, \<open>statusCode\<close>,
  \<open>response\<close>, \<open>code\<close>); a missing key reads as \<open>undefined\<close>; on an exotic object the
  read runs the accessor or the trap, which may throw.\<close>

fun getProp :: "val \<Rightarrow> string \<Rightarrow> exn + val" where
  "getProp Undefined k = Inl TypeError"
| "getProp Null k = Inl TypeError"
| "getProp (Object cs ps) k = Inr (case map_of ps k of None \<Rightarrow> Undefined | Some v \<Rightarrow> v)"
| "getProp (Function cs ps) k = Inr (case map_of ps k of None \<Rightarrow> Undefined | Some v \<Rightarrow> v)"
| "getProp (Exotic callable p h g) k = outcome (g k)"
| "getProp v k = Inr Undefined"

text \<open>\<open>v?.k\<close>: optional chaining short-circuits to \<open>undefined\<close> on a nullish receiver.\<close>

definition optChain :: "val \<Rightarrow> string \<Rightarrow> exn + val" where
  "optChain v k = (if v = Undefined \<or> v = Null then Inr Undefined else getProp v k)"

text \<open>\<open>k in v\<close>: throws unless the right operand is an object or a function; on an exotic
  object it runs the \<open>has\<close> trap, which may throw.\<close>

fun inOp :: "string \<Rightarrow> val \<Rightarrow> exn + bool" where
  "inOp k (Object cs ps) = Inr (map_of ps k \<noteq> None)"
| "inOp k (Function cs ps) = Inr (map_of ps k \<noteq> None)"
| "inOp k (Exotic callable p h g) = outcome (h k)"
| "inOp k v = Inl TypeError"

text \<open>\<open>v instanceof C\<close> for an imported class \<open>C\<close>: false on every primitive; on an exotic
  object the walk of the prototype chain may throw.\<close>

fun instanceofOp :: "val \<Rightarrow> sdk_class \<Rightarrow> exn + bool" where
  "instanceofOp (Object cs ps) c = Inr (c \<in> set cs)"
| "instanceofOp (Function cs ps) c = Inr (c \<in> set cs)"
| "instanceofOp (Exotic callable p h g) c = bindE (outcome p) (\<lambda>cs. Inr (c \<in> set cs))"
| "instanceofOp v c = Inr False"

text \<open>\<open>===\<close> and \<open>>=\<close> on numbers: \<open>NaN\<close> compares false with everything.\<close>

fun strictEq :: "number \<Rightarrow> number \<Rightarrow> bool" where
  "strictEq (Finite a) (Finite b) = (a = b)"
| "strictEq PosInfinity PosInfinity = True"
| "strictEq NegInfinity NegInfinity = True"
| "strictEq a b = False"

fun greaterEq :: "number \<Rightarrow> number \<Rightarrow> bool" where
  "greaterEq NaN b = False"
| "greaterEq a NaN = False"
| "greaterEq (Finite a) (Finite b) = (b \<le> a)"
| "greaterEq PosInfinity b = True"
| "greaterEq a NegInfinity = True"
| "greaterEq a b = False"

text \<open>\<open>String.prototype.toLowerCase\<close> on ASCII text; the code applies it to one of three
  upper-case ASCII literals only.\<close>

definition toLowerCase_char :: "char \<Rightarrow> char" where
  "toLowerCase_char c =
     (let n = (of_char c :: nat) in if 65 \<le> n \<and> n \<le> 90 then char_of (n + 32) else c)"

definition toLowerCase :: "string \<Rightarrow> string" where
  "toLowerCase s = map toLowerCase_char s"

definition startsWith :: "string \<Rightarrow> string \<Rightarrow> bool" where
  "startsWith s p = (take (length p) s = p)"

section \<open>The helpers of \<open>aiError.ts\<close>\<close>

record NormalizedAIError =
  status :: number
  code :: string
  name :: string
  message :: string
  retryAfterMs :: "number option"

definition isObject :: "val \<Rightarrow> bool" where
  "isObject v = (typeof v = ''object'' \<and> v \<noteq> Null)"

definition getString :: "val \<Rightarrow> string \<Rightarrow> string" where
  "getString v fallback = (case v of String s \<Rightarrow> s | _ \<Rightarrow> fallback)"

definition readNumber :: "val \<Rightarrow> number option" where
  "readNumber v = (case v of Number n \<Rightarrow> Some n | _ \<Rightarrow> None)"

definition hasProp :: "val \<Rightarrow> string \<Rightarrow> exn + bool" where
  "hasProp obj key = (if isObject obj then inOp key obj else Inr False)"

text \<open>A guard \<open>hasProp(o, k) && typeof o.k === "number"\<close>, evaluated left to right with
  the short circuit of \<open>&&\<close>.\<close>

definition hasNumber :: "val \<Rightarrow> string \<Rightarrow> exn + bool" where
  "hasNumber obj key =
     bindE (hasProp obj key) (\<lambda>h.
       if h then bindE (getProp obj key) (\<lambda>v. Inr (typeof v = ''number''))
       else Inr False)"

text \<open>\<open>return o.k\<close> behind such a guard: the value read is a number.\<close>

definition returnNumber :: "val \<Rightarrow> string \<Rightarrow> exn + number option" where
  "returnNumber obj key = bindE (getProp obj key) (\<lambda>v. Inr (readNumber v))"

definition readStatusFrom :: "val \<Rightarrow> exn + number option" where
  "readStatusFrom error =
     bindE (hasNumber error ''status'') (\<lambda>c1.
       if c1 then returnNumber error ''status''
       else bindE (hasNumber error ''statusCode'') (\<lambda>c2.
         if c2 then returnNumber error ''statusCode''
         else bindE (hasProp error ''response'') (\<lambda>h.
           if h then
             bindE (getProp error ''response'') (\<lambda>response.
               bindE (hasNumber response ''status'') (\<lambda>c3.
                 if c3 then returnNumber response ''status'' else Inr None))
           else Inr None)))"

definition hasName :: "val \<Rightarrow> string list \<Rightarrow> exn + bool" where
  "hasName error names =
     bindE (optChain error ''name'') (\<lambda>v. Inr (getString v '''' \<in> set names))"

section \<open>The classifier\<close>

text \<open>\<open>readStatusFrom(error) ?? d\<close>.\<close>

definition orDefault :: "number option \<Rightarrow> number \<Rightarrow> number" where
  "orDefault s d = (case s of None \<Rightarrow> d | Some n \<Rightarrow> n)"

text \<open>The conditional chain of the \<open>APICallError\<close> branch.\<close>

definition apiCallCode :: "number \<Rightarrow> string" where
  "apiCallCode = (\<lambda>status.
      if strictEq status (Finite 401) then ''auth.unauthorized''
      else if strictEq status (Finite 403) then ''auth.forbidden''
      else if strictEq status (Finite 404) then ''provider.not_found''
      else if strictEq status (Finite 409) then ''provider.conflict''
      else if strictEq status (Finite 422) then ''provider.unprocessable''
      else if strictEq status (Finite 429) then ''provider.rate_limited''
      else if greaterEq status (Finite 500) then ''provider.error''
      else ''provider.request_failed'')"

text \<open>The block under the comment \<open>Generic fetch/node errors\<close>: \<open>Some\<close> the record it
  returns, \<open>None\<close> when control falls through to the next statement. The source reads
  \<open>error.code\<close> a second time and applies \<open>String\<close> to it; on a value whose \<open>typeof\<close> is
  \<open>string\<close> that is the string itself.\<close>

definition networkError :: "val \<Rightarrow> string \<Rightarrow> string \<Rightarrow> exn + NormalizedAIError option" where
  "networkError error = (\<lambda>name message.
     bindE (hasProp error ''code'') (\<lambda>h.
       if h then
         bindE (getProp error ''code'') (\<lambda>c.
           if typeof c = ''string'' then
             (\<lambda>code.
                if code = ''ETIMEDOUT'' \<or> code = ''ECONNRESET'' \<or> code = ''ENOTFOUND'' then
                  Inr (Some \<lparr>status = Finite 502, code = ''network.'' @ toLowerCase code,
                             name = name, message = message, retryAfterMs = None\<rparr>)
                else Inr None)
             (getString c '''')
           else Inr None)
       else Inr None))"

definition normalizeAIError :: "val \<Rightarrow> exn + NormalizedAIError" where
  "normalizeAIError error =
     bindE (optChain error ''name'') (\<lambda>nv.
     bindE (optChain error ''message'') (\<lambda>mv.
     (\<lambda>name message.
       bindE (instanceofOp error LoadAPIKeyError) (\<lambda>i1.
       if i1 then
         Inr \<lparr>status = Finite 401, code = ''auth.no_api_key'', name = name,
              message = ''Missing or invalid API key'', retryAfterMs = None\<rparr>
       else
       bindE (instanceofOp error NoSuchModelError) (\<lambda>i2.
       if i2 then
         Inr \<lparr>status = Finite 400, code = ''model.not_found'', name = name,
              message = message, retryAfterMs = None\<rparr>
       else
       bindE (instanceofOp error UnsupportedFunctionalityError) (\<lambda>i3.
       if i3 then
         Inr \<lparr>status = Finite 400, code = ''model.unsupported_functionality'', name = name,
              message = message, retryAfterMs = None\<rparr>
       else
       bindE (orElse (instanceofOp error TypeValidationError)
                     (instanceofOp error InvalidPromptError)) (\<lambda>i4.
       if i4 then
         Inr \<lparr>status = Finite 400, code = ''input.invalid'', name = name,
              message = message, retryAfterMs = None\<rparr>
       else
       bindE (orElse (instanceofOp error EmptyResponseBodyError)
               (orElse (instanceofOp error InvalidResponseDataError)
                       (instanceofOp error JSONParseError))) (\<lambda>i5.
       if i5 then
         Inr \<lparr>status = Finite 502, code = ''provider.invalid_response'', name = name,
              message = message, retryAfterMs = None\<rparr>
       else
       bindE (instanceofOp error NoContentGeneratedError) (\<lambda>i6.
       if i6 then
         Inr \<lparr>status = Finite 502, code = ''provider.no_output'', name = name,
              message = message, retryAfterMs = None\<rparr>
       else
       bindE (instanceofOp error APICallError) (\<lambda>i7.
       if i7 then
         bindE (readStatusFrom error) (\<lambda>s.
           (\<lambda>status.
              Inr \<lparr>status = status, code = apiCallCode status, name = name,
                   message = message, retryAfterMs = None\<rparr>)
           (orDefault s (Finite 502)))
       else
         bindE (hasName error [''InvalidToolInputError'', ''NoSuchToolError'',
                               ''ToolCallRepairError'']) (\<lambda>t1.
         if t1 then
           Inr \<lparr>status = Finite 400, code = ''tool.invalid'', name = name,
                message = message, retryAfterMs = None\<rparr>
         else
         bindE (hasName error [''InvalidArgumentError'', ''InvalidDataContentError'',
                               ''InvalidMessageRoleError'', ''MessageConversionError'']) (\<lambda>t2.
         if t2 then
           Inr \<lparr>status = Finite 400, code = ''input.invalid'', name = name,
                message = message, retryAfterMs = None\<rparr>
         else
         bindE (hasName error [''InvalidStreamPartError'']) (\<lambda>t3.
         if t3 then
           Inr \<lparr>status = Finite 502, code = ''stream.invalid_part'', name = name,
                message = message, retryAfterMs = None\<rparr>
         else
         bindE (hasName error [''UnsupportedModelVersionError'', ''NoSuchProviderError'']) (\<lambda>t4.
         if t4 then
           Inr \<lparr>status = Finite 400, code = ''model.unsupported'', name = name,
                message = message, retryAfterMs = None\<rparr>
         else
         bindE (hasName error [''DownloadError'', ''MCPClientError'']) (\<lambda>t5.
         if t5 then
           Inr \<lparr>status = Finite 502, code = ''provider.network_error'', name = name,
                message = message, retryAfterMs = None\<rparr>
         else
         bindE (hasName error [''RetryError'']) (\<lambda>t6.
         if t6 then
           bindE (readStatusFrom error) (\<lambda>s.
             Inr \<lparr>status = orDefault s (Finite 503), code = ''provider.retry'', name = name,
                  message = message, retryAfterMs = None\<rparr>)
         else
         bindE (networkError error name message) (\<lambda>net.
         case net of
           Some r \<Rightarrow> Inr r
         | None \<Rightarrow>
             bindE (instanceofOp error AISDKError) (\<lambda>i8.
             if i8 then
               bindE (readStatusFrom error) (\<lambda>s.
                 Inr \<lparr>status = orDefault s (Finite 500), code = ''ai_sdk.error'', name = name,
                      message = message, retryAfterMs = None\<rparr>)
             else
               Inr \<lparr>status = Finite 500, code = ''unknown'', name = name,
                    message = message, retryAfterMs = None\<rparr>))))))))))))))))
     (getString nv ''Error'') (getString mv ''Unexpected error'')))"

section \<open>The friendly message\<close>

definition getStreamFriendlyMessage :: "val \<Rightarrow> exn + string" where
  "getStreamFriendlyMessage error =
     bindE (normalizeAIError error) (\<lambda>normalized.
       if startsWith (code normalized) ''auth.'' then
         Inr ''Authentication failed (check API key).''
       else if code normalized = ''provider.rate_limited'' then
         Inr ''Rate limited. Please wait and try again.''
       else if startsWith (code normalized) ''input.'' then
         Inr ''Invalid input. Please adjust your request and try again.''
       else if startsWith (code normalized) ''tool.'' then
         Inr ''A tool call failed. Please try again.''
       else if startsWith (code normalized) ''model.'' then
         Inr ''Model configuration issue. Please try again later.''
       else if startsWith (code normalized) ''network.'' then
         Inr ''Network error. Please retry.''
       else if code normalized = ''provider.error'' then
         Inr ''The model provider had an error. Please retry.''
       else Inr ''Something went wrong. Please try again.'')"

section \<open>The reporter\<close>

text \<open>
  \<open>handleAIError\<close> acts on two collaborators: the console and the response handle
  \<open>res\<close>. Both are outside the repository. The response handle is a parameter: each of
  its three methods maps the handle's state to a new state and may throw. The console and
  the handle share one trace of calls, so that the order of the effects can be stated.
  \<open>console.error\<close> records its arguments and returns. \<open>JSON.stringify\<close> is a parameter
  too; on a payload of three strings it returns a string. The classification and the
  reads of \<open>stack\<close> and \<open>cause\<close> stand before the \<open>try\<close>: what they throw leaves the
  function.
\<close>

record payload =
  error_code :: string
  error_name :: string
  error_message :: string

record log_entry =
  log_name :: string
  log_code :: string
  log_status :: number
  log_message :: string
  log_stack :: val
  log_cause :: val

datatype event =
    ConsoleError string log_entry
  | ResStatus number
  | ResJson payload
  | ResEnd string

record 'st NextApiResponse =
  resStatus :: "number \<Rightarrow> 'st \<Rightarrow> exn option \<times> 'st"
  resJson :: "payload \<Rightarrow> 'st \<Rightarrow> exn option \<times> 'st"
  resEnd :: "string \<Rightarrow> 'st \<Rightarrow> exn option \<times> 'st"

record 'st world =
  trace :: "event list"
  transport :: 'st

text \<open>A statement maps the world to a new world and either completes (\<open>None\<close>) or throws.\<close>

type_synonym 'st stmt = "'st world \<Rightarrow> exn option \<times> 'st world"

definition consoleError :: "string \<Rightarrow> log_entry \<Rightarrow> 'st stmt" where
  "consoleError label entry w = (None, w\<lparr>trace := trace w @ [ConsoleError label entry]\<rparr>)"

definition callStatus :: "'st NextApiResponse \<Rightarrow> number \<Rightarrow> 'st stmt" where
  "callStatus res s w =
     (case resStatus res s (transport w) of
        (x, t) \<Rightarrow> (x, \<lparr>trace = trace w @ [ResStatus s], transport = t\<rparr>))"

definition callJson :: "'st NextApiResponse \<Rightarrow> payload \<Rightarrow> 'st stmt" where
  "callJson res p w =
     (case resJson res p (transport w) of
        (x, t) \<Rightarrow> (x, \<lparr>trace = trace w @ [ResJson p], transport = t\<rparr>))"

definition callEnd :: "'st NextApiResponse \<Rightarrow> string \<Rightarrow> 'st stmt" where
  "callEnd res body w =
     (case resEnd res body (transport w) of
        (x, t) \<Rightarrow> (x, \<lparr>trace = trace w @ [ResEnd body], transport = t\<rparr>))"

text \<open>\<open>a; b\<close> and \<open>try { a } catch { h }\<close>.\<close>

definition seqS :: "'st stmt \<Rightarrow> 'st stmt \<Rightarrow> 'st stmt" where
  "seqS a b w = (case a w of (None, w') \<Rightarrow> b w' | (Some e, w') \<Rightarrow> (Some e, w'))"

definition tryCatch :: "'st stmt \<Rightarrow> 'st stmt \<Rightarrow> 'st stmt" where
  "tryCatch a h w = (case a w of (None, w') \<Rightarrow> (None, w') | (Some e, w') \<Rightarrow> h w')"

definition skip :: "'st stmt" where
  "skip w = (None, w)"

definition handleAIError ::
  "(payload \<Rightarrow> string) \<Rightarrow> 'st NextApiResponse \<Rightarrow> val \<Rightarrow> 'st stmt" where
  "handleAIError JSON_stringify res error w =
     (case normalizeAIError error of
        Inl e \<Rightarrow> (Some e, w)
      | Inr n \<Rightarrow>
     (case optChain error ''stack'' of
        Inl e \<Rightarrow> (Some e, w)
      | Inr stack \<Rightarrow>
     (case optChain error ''cause'' of
        Inl e \<Rightarrow> (Some e, w)
      | Inr cause \<Rightarrow>
     (\<lambda>payload.
        seqS
          (consoleError ''AI Error''
             \<lparr>log_name = name n, log_code = code n, log_status = status n,
              log_message = message n, log_stack = stack, log_cause = cause\<rparr>)
          (tryCatch
             (seqS (callStatus res (status n)) (callJson res payload))
             (tryCatch
                (seqS (callStatus res (status n)) (callEnd res (JSON_stringify payload)))
                skip))
          w)
     \<lparr>error_code = code n, error_name = name n, error_message = message n\<rparr>)))"

section \<open>Vocabulary of the specification\<close>

text \<open>The properties an input shows to the program: the table of its visible properties
  (empty for a primitive; on an exotic object the keys it admits to having, each with the
  value its read gives), and the value a read of a key gives (\<open>undefined\<close> for a missing
  key, and here also for a read that throws).\<close>

fun props :: "val \<Rightarrow> (string \<rightharpoonup> val)" where
  "props (Object cs ps) = map_of ps"
| "props (Function cs ps) = map_of ps"
| "props (Exotic callable p h g) =
     (\<lambda>k. if h k = Inr True then (case g k of Inr x \<Rightarrow> Some x | Inl v \<Rightarrow> None) else None)"
| "props v = Map.empty"

fun field :: "val \<Rightarrow> string \<Rightarrow> val" where
  "field (Object cs ps) k = (case map_of ps k of None \<Rightarrow> Undefined | Some x \<Rightarrow> x)"
| "field (Function cs ps) k = (case map_of ps k of None \<Rightarrow> Undefined | Some x \<Rightarrow> x)"
| "field (Exotic callable p h g) k = (case g k of Inr x \<Rightarrow> x | Inl v \<Rightarrow> Undefined)"
| "field v k = Undefined"

text \<open>Being an instance of a class: what \<open>instanceof\<close> answers (false where it throws).\<close>

fun instanceof :: "val \<Rightarrow> sdk_class \<Rightarrow> bool" where
  "instanceof (Object cs ps) c = (c \<in> set cs)"
| "instanceof (Function cs ps) c = (c \<in> set cs)"
| "instanceof (Exotic callable p h g) c = (case p of Inr cs \<Rightarrow> c \<in> set cs | Inl v \<Rightarrow> False)"
| "instanceof v c = False"

text \<open>The inputs without exotic parts, as far as the program looks: the value itself and
  the value of its \<open>response\<close> field.\<close>

fun exotic :: "val \<Rightarrow> bool" where
  "exotic (Exotic callable p h g) = True"
| "exotic v = False"

definition ordinary :: "val \<Rightarrow> bool" where
  "ordinary error = (\<not> exotic error \<and> \<not> exotic (field error ''response''))"

text \<open>The operations of the program that may throw on an exotic object, a predicate for
  each kind: the walk of the prototype chain does not throw; the read of a key does not
  throw; neither the \<open>in\<close> test nor the read of a key throws.\<close>

fun walkable :: "val \<Rightarrow> bool" where
  "walkable (Exotic callable p h g) = (\<not> isl p)"
| "walkable v = True"

fun gettable :: "val \<Rightarrow> string \<Rightarrow> bool" where
  "gettable (Exotic callable p h g) k = (\<not> isl (g k))"
| "gettable v k = True"

fun readable :: "val \<Rightarrow> string \<Rightarrow> bool" where
  "readable (Exotic callable p h g) k = (\<not> isl (h k) \<and> \<not> isl (g k))"
| "readable v k = True"

text \<open>The inputs on which no operation of the classifier throws: the reads of \<open>name\<close> and
  \<open>message\<close>, \<open>instanceof\<close>, the test and the read of \<open>status\<close>, \<open>statusCode\<close>,
  \<open>response\<close> and \<open>code\<close>, and the test and the read of \<open>status\<close> on the value of the
  \<open>response\<close> field.\<close>

definition quiet :: "val \<Rightarrow> bool" where
  "quiet error =
     (gettable error ''name'' \<and> gettable error ''message'' \<and> walkable error
      \<and> readable error ''status'' \<and> readable error ''statusCode''
      \<and> readable error ''response'' \<and> readable (field error ''response'') ''status''
      \<and> readable error ''code'')"

text \<open>The specification's status extraction: a numeric \<open>status\<close> field, else a numeric
  \<open>statusCode\<close> field, else a numeric nested \<open>response.status\<close> field, else nothing (the
  rule's default applies). A field is a property of an object; a nested field is a field
  of a field that is present.\<close>

definition numericField :: "val \<Rightarrow> string \<Rightarrow> number option" where
  "numericField v k =
     (if isObject v then (case props v k of Some (Number n) \<Rightarrow> Some n | _ \<Rightarrow> None) else None)"

definition nestedNumericField :: "val \<Rightarrow> string \<Rightarrow> string \<Rightarrow> number option" where
  "nestedNumericField v k1 k2 =
     (if isObject v then (case props v k1 of Some r \<Rightarrow> numericField r k2 | None \<Rightarrow> None)
      else None)"

definition statusByPriority :: "val \<Rightarrow> number option" where
  "statusByPriority error =
     (case numericField error ''status'' of
        Some n \<Rightarrow> Some n
      | None \<Rightarrow>
          (case numericField error ''statusCode'' of
             Some n \<Rightarrow> Some n
           | None \<Rightarrow> nestedNumericField error ''response'' ''status''))"


text \<open>The classes tested before \<open>APICallError\<close>, in the order of the tests.\<close>

definition earlierClasses :: "sdk_class list" where
  "earlierClasses =
     [LoadAPIKeyError, NoSuchModelError, UnsupportedFunctionalityError, TypeValidationError,
      InvalidPromptError, EmptyResponseBodyError, InvalidResponseDataError, JSONParseError,
      NoContentGeneratedError]"

text \<open>The eight strings \<open>getStreamFriendlyMessage\<close> can return.\<close>

definition friendlyMessages :: "string set" where
  "friendlyMessages =
     {''Authentication failed (check API key).'',
      ''Rate limited. Please wait and try again.'',
      ''Invalid input. Please adjust your request and try again.'',
      ''A tool call failed. Please try again.'',
      ''Model configuration issue. Please try again later.'',
      ''Network error. Please retry.'',
      ''The model provider had an error. Please retry.'',
      ''Something went wrong. Please try again.''}"

text \<open>The network rule's condition: a present string \<open>code\<close> field of an object that is
  one of the three network codes.\<close>

definition networkCode :: "val \<Rightarrow> string option" where
  "networkCode error =
     (if isObject error then
        (case props error ''code'' of
           Some (String c) \<Rightarrow>
             if c = ''ETIMEDOUT'' \<or> c = ''ECONNRESET'' \<or> c = ''ENOTFOUND'' then Some c else None
         | _ \<Rightarrow> None)
      else None)"

text \<open>The names matched by the rules that test the \<open>name\<close> string.\<close>

definition ruleNames :: "string list" where
  "ruleNames =
     [''InvalidToolInputError'', ''NoSuchToolError'', ''ToolCallRepairError'',
      ''InvalidArgumentError'', ''InvalidDataContentError'', ''InvalidMessageRoleError'',
      ''MessageConversionError'', ''InvalidStreamPartError'', ''UnsupportedModelVersionError'',
      ''NoSuchProviderError'', ''DownloadError'', ''MCPClientError'', ''RetryError'']"

text \<open>The rule table of the specification (its section 4.1), read from top to bottom, as
  a function of what the input shows. The facts below compare the classifier with it;
  no claim is stated through it.\<close>

definition ruleTable :: "val \<Rightarrow> NormalizedAIError" where
  "ruleTable error =
     (\<lambda>tested name message.
        if instanceof error LoadAPIKeyError then
          \<lparr>status = Finite 401, code = ''auth.no_api_key'', name = name,
           message = ''Missing or invalid API key'', retryAfterMs = None\<rparr>
        else if instanceof error NoSuchModelError then
          \<lparr>status = Finite 400, code = ''model.not_found'', name = name,
           message = message, retryAfterMs = None\<rparr>
        else if instanceof error UnsupportedFunctionalityError then
          \<lparr>status = Finite 400, code = ''model.unsupported_functionality'', name = name,
           message = message, retryAfterMs = None\<rparr>
        else if instanceof error TypeValidationError \<or> instanceof error InvalidPromptError then
          \<lparr>status = Finite 400, code = ''input.invalid'', name = name,
           message = message, retryAfterMs = None\<rparr>
        else if instanceof error EmptyResponseBodyError
                \<or> instanceof error InvalidResponseDataError
                \<or> instanceof error JSONParseError then
          \<lparr>status = Finite 502, code = ''provider.invalid_response'', name = name,
           message = message, retryAfterMs = None\<rparr>
        else if instanceof error NoContentGeneratedError then
          \<lparr>status = Finite 502, code = ''provider.no_output'', name = name,
           message = message, retryAfterMs = None\<rparr>
        else if instanceof error APICallError then
          \<lparr>status = orDefault (statusByPriority error) (Finite 502),
           code = apiCallCode (orDefault (statusByPriority error) (Finite 502)), name = name,
           message = message, retryAfterMs = None\<rparr>
        else if tested \<in> set [''InvalidToolInputError'', ''NoSuchToolError'',
                               ''ToolCallRepairError''] then
          \<lparr>status = Finite 400, code = ''tool.invalid'', name = name,
           message = message, retryAfterMs = None\<rparr>
        else if tested \<in> set [''InvalidArgumentError'', ''InvalidDataContentError'',
                               ''InvalidMessageRoleError'', ''MessageConversionError''] then
          \<lparr>status = Finite 400, code = ''input.invalid'', name = name,
           message = message, retryAfterMs = None\<rparr>
        else if tested \<in> set [''InvalidStreamPartError''] then
          \<lparr>status = Finite 502, code = ''stream.invalid_part'', name = name,
           message = message, retryAfterMs = None\<rparr>
        else if tested \<in> set [''UnsupportedModelVersionError'', ''NoSuchProviderError''] then
          \<lparr>status = Finite 400, code = ''model.unsupported'', name = name,
           message = message, retryAfterMs = None\<rparr>
        else if tested \<in> set [''DownloadError'', ''MCPClientError''] then
          \<lparr>status = Finite 502, code = ''provider.network_error'', name = name,
           message = message, retryAfterMs = None\<rparr>
        else if tested \<in> set [''RetryError''] then
          \<lparr>status = orDefault (statusByPriority error) (Finite 503), code = ''provider.retry'',
           name = name, message = message, retryAfterMs = None\<rparr>
        else
          (case networkCode error of
             Some c \<Rightarrow>
               \<lparr>status = Finite 502, code = ''network.'' @ toLowerCase c, name = name,
                message = message, retryAfterMs = None\<rparr>
           | None \<Rightarrow>
               if instanceof error AISDKError then
                 \<lparr>status = orDefault (statusByPriority error) (Finite 500),
                  code = ''ai_sdk.error'', name = name, message = message,
                  retryAfterMs = None\<rparr>
               else
                 \<lparr>status = Finite 500, code = ''unknown'', name = name,
                  message = message, retryAfterMs = None\<rparr>))
     (getString (field error ''name'') '''')
     (getString (field error ''name'') ''Error'')
     (getString (field error ''message'') ''Unexpected error'')"

text \<open>A computation that may throw returns nothing but \<open>y\<close>.\<close>

definition refines :: "exn + 'a \<Rightarrow> 'a \<Rightarrow> bool" where
  "refines m y = (\<forall>n. m = Inr n \<longrightarrow> n = y)"

section \<open>Example inputs and collaborators\<close>

text \<open>The object \<open>{ get name() { throw "boom" } }\<close>; a revoked \<open>Proxy\<close>, every operation on
  which throws a \<open>TypeError\<close>; and an error whose \<open>stack\<close> is an accessor that returns.\<close>

definition throwingName :: val where
  "throwingName =
     Exotic False (Inr []) (\<lambda>k. Inr (k = ''name''))
       (\<lambda>k. if k = ''name'' then Inl (String ''boom'') else Inr Undefined)"

definition typeError :: val where
  "typeError = Object [] [(''name'', String ''TypeError'')]"

definition revokedProxy :: val where
  "revokedProxy = Exotic False (Inl typeError) (\<lambda>k. Inl typeError) (\<lambda>k. Inl typeError)"

definition lazyStack :: val where
  "lazyStack =
     Exotic False (Inr [AISDKError]) (\<lambda>k. Inr (k = ''stack'' \<or> k = ''message''))
       (\<lambda>k. if k = ''stack'' then Inr (String ''at handler'')
            else if k = ''message'' then Inr (String ''quota exceeded'')
            else Inr Undefined)"

text \<open>A response handle whose headers are already sent: \<open>json\<close> throws, \<open>end\<close> writes. And a
  stand-in for \<open>JSON.stringify\<close>: any function from payloads to strings will do.\<close>

definition headersSent :: "nat NextApiResponse" where
  "headersSent =
     \<lparr>resStatus = (\<lambda>s t. (None, t)),
      resJson = (\<lambda>p t. (Some (Thrown (String ''ERR_HTTP_HEADERS_SENT'')), t)),
      resEnd = (\<lambda>body t. (None, Suc t))\<rparr>"

definition serialize :: "payload \<Rightarrow> string" where
  "serialize p = error_code p @ '' '' @ error_name p @ '' '' @ error_message p"

section \<open>Basic facts\<close>

lemma bindE_Inr [simp]: "bindE (Inr x) f = f x"
  by (simp add: bindE_def)

lemma bindE_Inl [simp]: "bindE (Inl e) f = Inl e"
  by (simp add: bindE_def)

lemma bindE_eq_Inr: "(bindE m f = Inr y) = (\<exists>x. m = Inr x \<and> f x = Inr y)"
  by (cases m) simp_all

lemma outcome_simps [simp]:
  "outcome (Inr x) = Inr x" "outcome (Inl v) = Inl (Thrown v)"
  "(outcome r = Inr y) = (r = Inr y)"
  by (simp_all add: outcome_def split: sum.splits)

lemma orElse_eq_Inr:
  "(orElse a b = Inr r) = (a = Inr True \<and> r \<or> a = Inr False \<and> b = Inr r)"
  by (cases a) (auto simp: orElse_def)

lemma isObject_iff:
  "isObject v = ((\<exists>cs ps. v = Object cs ps) \<or> (\<exists>p h g. v = Exotic False p h g))"
  by (cases v) (auto simp: isObject_def)

lemma typeof_number: "(typeof v = ''number'') = (\<exists>n. v = Number n)"
  by (cases v) simp_all

lemma typeof_string: "(typeof v = ''string'') = (\<exists>s. v = String s)"
  by (cases v) simp_all

subsection \<open>What an operation returned, when it returned\<close>

lemma optChain_returned: "optChain v k = Inr x \<Longrightarrow> x = field v k"
  by (cases v) (auto simp: optChain_def split: sum.splits)

lemma getProp_returned: "getProp v k = Inr x \<Longrightarrow> x = field v k"
  by (cases v) (auto split: sum.splits)

lemma instanceofOp_returned: "instanceofOp v c = Inr b \<Longrightarrow> b = instanceof v c"
  by (cases v) (auto simp: bindE_eq_Inr)

lemma hasNumber_returned: "hasNumber v k = Inr b \<Longrightarrow> b = (numericField v k \<noteq> None)"
  by (cases v)
     (auto simp: hasNumber_def hasProp_def isObject_def numericField_def bindE_eq_Inr
                 typeof_number
           split: if_splits option.splits val.splits sum.splits)

lemma returnNumber_returned:
  "returnNumber v k = Inr r \<Longrightarrow> numericField v k \<noteq> None \<Longrightarrow> r = numericField v k"
  by (cases v)
     (auto simp: returnNumber_def numericField_def bindE_eq_Inr readNumber_def isObject_def
           split: if_splits option.splits val.splits sum.splits)

lemma hasProp_returned_True:
  "hasProp v k = Inr True \<Longrightarrow> getProp v k = Inr x \<Longrightarrow> isObject v \<and> props v k = Some x"
  by (cases v) (auto simp: hasProp_def isObject_def split: if_splits option.splits)

lemma hasProp_returned_False:
  "hasProp v k = Inr False \<Longrightarrow> \<not> isObject v \<or> props v k = None"
  by (cases v) (auto simp: hasProp_def isObject_def split: if_splits option.splits)

lemma readStatusFrom_returned:
  assumes "readStatusFrom error = Inr r"
  shows "r = statusByPriority error"
proof -
  from assms obtain c1 where c1: "hasNumber error ''status'' = Inr c1"
    and k1: "(if c1 then returnNumber error ''status''
       else bindE (hasNumber error ''statusCode'') (\<lambda>c2.
         if c2 then returnNumber error ''statusCode''
         else bindE (hasProp error ''response'') (\<lambda>h.
           if h then
             bindE (getProp error ''response'') (\<lambda>response.
               bindE (hasNumber response ''status'') (\<lambda>c3.
                 if c3 then returnNumber response ''status'' else Inr None))
           else Inr None))) = Inr r"
    by (auto simp: readStatusFrom_def bindE_eq_Inr)
  note n1 = hasNumber_returned [OF c1]
  show ?thesis
  proof (cases c1)
    case True
    with k1 n1 show ?thesis
      by (auto simp: statusByPriority_def dest: returnNumber_returned)
  next
    case False
    with k1 obtain c2 where c2: "hasNumber error ''statusCode'' = Inr c2"
      and k2: "(if c2 then returnNumber error ''statusCode''
         else bindE (hasProp error ''response'') (\<lambda>h.
           if h then
             bindE (getProp error ''response'') (\<lambda>response.
               bindE (hasNumber response ''status'') (\<lambda>c3.
                 if c3 then returnNumber response ''status'' else Inr None))
           else Inr None)) = Inr r"
      by (auto simp: bindE_eq_Inr)
    note n2 = hasNumber_returned [OF c2]
    show ?thesis
    proof (cases c2)
      case True
      with k2 n1 n2 False show ?thesis
        by (auto simp: statusByPriority_def dest: returnNumber_returned)
    next
      case c2F: False
      with k2 obtain h where h: "hasProp error ''response'' = Inr h"
        and k3: "(if h then
             bindE (getProp error ''response'') (\<lambda>response.
               bindE (hasNumber response ''status'') (\<lambda>c3.
                 if c3 then returnNumber response ''status'' else Inr None))
           else Inr None) = Inr r"
        by (auto simp: bindE_eq_Inr)
      from n1 n2 False c2F have s: "statusByPriority error =
          nestedNumericField error ''response'' ''status''"
        by (simp add: statusByPriority_def)
      show ?thesis
      proof (cases h)
        case hF: False
        with h k3 show ?thesis
          unfolding s
          by (auto simp: nestedNumericField_def dest!: hasProp_returned_False)
      next
        case hT: True
        with k3 obtain resp c3 where g: "getProp error ''response'' = Inr resp"
          and c3: "hasNumber resp ''status'' = Inr c3"
          and k4: "(if c3 then returnNumber resp ''status'' else Inr None) = Inr r"
          by (auto simp: bindE_eq_Inr)
        from h hT have "hasProp error ''response'' = Inr True" by simp
        from hasProp_returned_True [OF this g]
        have p: "isObject error" "props error ''response'' = Some resp" by simp_all
        note n3 = hasNumber_returned [OF c3]
        from k4 n3 p show ?thesis
          unfolding s
          by (auto simp: nestedNumericField_def split: if_splits dest: returnNumber_returned)
      qed
    qed
  qed
qed

lemma hasName_returned:
  "hasName error names = Inr b \<Longrightarrow> b = (getString (field error ''name'') '''' \<in> set names)"
  by (auto simp: hasName_def bindE_eq_Inr dest!: optChain_returned)

lemma networkError_returned:
  "networkError error nm msg = Inr r \<Longrightarrow>
   r = map_option (\<lambda>c. \<lparr>status = Finite 502, code = ''network.'' @ toLowerCase c,
                          name = nm, message = msg, retryAfterMs = None\<rparr>) (networkCode error)"
  by (cases error)
     (auto simp: networkError_def hasProp_def isObject_def networkCode_def bindE_eq_Inr
                 typeof_string getString_def
           split: if_splits option.splits val.splits sum.splits)

subsection \<open>The classifier against the rule table\<close>

lemma refines_Inr: "refines (Inr y) y"
  by (simp add: refines_def)

lemma refines_Inl: "refines (Inl x) y"
  by (simp add: refines_def)

lemma refines_if:
  "refines m1 y1 \<Longrightarrow> refines m2 y2 \<Longrightarrow>
   refines (if c then m1 else m2) (if c then y1 else y2)"
  by simp

lemma refines_network:
  "refines m y \<Longrightarrow>
   refines (case map_option f nc of Some r \<Rightarrow> Inr r | None \<Rightarrow> m)
           (case nc of Some c \<Rightarrow> f c | None \<Rightarrow> y)"
  by (cases nc) (simp_all add: refines_def)

lemma orElse_Inr: "orElse (Inr a) (Inr b) = Inr (a \<or> b)"
  by (simp add: orElse_def)

lemma instanceofOp_all:
  "instanceofOp v c = Inr b \<Longrightarrow> instanceofOp v c' = Inr (instanceof v c')"
  by (cases v) (auto simp: bindE_eq_Inr)

lemma hasName_after_read:
  "optChain error ''name'' = Inr nv \<Longrightarrow>
   hasName error names = Inr (getString (field error ''name'') '''' \<in> set names)"
  by (auto simp: hasName_def dest: optChain_returned)

lemma normalizeAIError_refines:
  assumes nv: "optChain error ''name'' = Inr (field error ''name'')"
    and mv: "optChain error ''message'' = Inr (field error ''message'')"
    and inst: "\<And>c. instanceofOp error c = Inr (instanceof error c)"
    and rs: "readStatusFrom error = Inl x \<or> readStatusFrom error = Inr (statusByPriority error)"
    and net: "networkError error (getString (field error ''name'') ''Error'')
                (getString (field error ''message'') ''Unexpected error'') = Inl y
              \<or> networkError error (getString (field error ''name'') ''Error'')
                (getString (field error ''message'') ''Unexpected error'') =
                 Inr (map_option (\<lambda>c. \<lparr>status = Finite 502, code = ''network.'' @ toLowerCase c,
                          name = getString (field error ''name'') ''Error'',
                          message = getString (field error ''message'') ''Unexpected error'',
                          retryAfterMs = None\<rparr>) (networkCode error))"
  shows "refines (normalizeAIError error) (ruleTable error)"
proof -
  note hn = hasName_after_read [OF nv]
  from rs net
  show ?thesis
  proof (elim disjE)
    assume a: "readStatusFrom error = Inl x"
      "networkError error (getString (field error ''name'') ''Error'')
         (getString (field error ''message'') ''Unexpected error'') = Inl y"
    show ?thesis
      unfolding normalizeAIError_def ruleTable_def nv mv inst hn a orElse_Inr bindE_Inr bindE_Inl
      by (intro refines_if refines_Inr refines_Inl refines_network)
  next
    assume a: "readStatusFrom error = Inl x"
      "networkError error (getString (field error ''name'') ''Error'')
         (getString (field error ''message'') ''Unexpected error'') =
       Inr (map_option (\<lambda>c. \<lparr>status = Finite 502, code = ''network.'' @ toLowerCase c,
                          name = getString (field error ''name'') ''Error'',
                          message = getString (field error ''message'') ''Unexpected error'',
                          retryAfterMs = None\<rparr>) (networkCode error))"
    show ?thesis
      unfolding normalizeAIError_def ruleTable_def nv mv inst hn a orElse_Inr bindE_Inr bindE_Inl
      by (intro refines_if refines_Inr refines_Inl refines_network)
  next
    assume a: "readStatusFrom error = Inr (statusByPriority error)"
      "networkError error (getString (field error ''name'') ''Error'')
         (getString (field error ''message'') ''Unexpected error'') = Inl y"
    show ?thesis
      unfolding normalizeAIError_def ruleTable_def nv mv inst hn a orElse_Inr bindE_Inr bindE_Inl
      by (intro refines_if refines_Inr refines_Inl refines_network)
  next
    assume a: "readStatusFrom error = Inr (statusByPriority error)"
      "networkError error (getString (field error ''name'') ''Error'')
         (getString (field error ''message'') ''Unexpected error'') =
       Inr (map_option (\<lambda>c. \<lparr>status = Finite 502, code = ''network.'' @ toLowerCase c,
                          name = getString (field error ''name'') ''Error'',
                          message = getString (field error ''message'') ''Unexpected error'',
                          retryAfterMs = None\<rparr>) (networkCode error))"
    show ?thesis
      unfolding normalizeAIError_def ruleTable_def nv mv inst hn a orElse_Inr bindE_Inr bindE_Inl
      by (intro refines_if refines_Inr refines_Inl refines_network)
  qed
qed

lemma normalizeAIError_reads:
  assumes n: "normalizeAIError error = Inr n"
  shows "optChain error ''name'' = Inr (field error ''name'')
       \<and> optChain error ''message'' = Inr (field error ''message'')
       \<and> (\<forall>c. instanceofOp error c = Inr (instanceof error c))"
proof -
  have 1: "\<exists>nv. optChain error ''name'' = Inr nv"
  proof (cases "optChain error ''name''")
    case (Inl e)
    with n show ?thesis
      unfolding normalizeAIError_def by (simp only: bindE_Inl sum.distinct)
  qed simp
  then obtain nv where nv: "optChain error ''name'' = Inr nv" ..
  have 2: "\<exists>mv. optChain error ''message'' = Inr mv"
  proof (cases "optChain error ''message''")
    case (Inl e)
    with n show ?thesis
      unfolding normalizeAIError_def nv by (simp only: bindE_Inl bindE_Inr sum.distinct)
  qed simp
  then obtain mv where mv: "optChain error ''message'' = Inr mv" ..
  have 3: "\<exists>i. instanceofOp error LoadAPIKeyError = Inr i"
  proof (cases "instanceofOp error LoadAPIKeyError")
    case (Inl e)
    with n show ?thesis
      unfolding normalizeAIError_def nv mv by (simp only: bindE_Inl bindE_Inr sum.distinct)
  qed simp
  then obtain i where i: "instanceofOp error LoadAPIKeyError = Inr i" ..
  from nv mv instanceofOp_all [OF i] show ?thesis
    by (auto dest: optChain_returned)
qed

lemma normalizeAIError_returned:
  assumes n: "normalizeAIError error = Inr n"
  shows "n = ruleTable error"
proof -
  note r = normalizeAIError_reads [OF n]
  have "refines (normalizeAIError error) (ruleTable error)"
  proof (cases "readStatusFrom error")
    case rl: (Inl x)
    show ?thesis
    proof (cases "networkError error (getString (field error ''name'') ''Error'')
                    (getString (field error ''message'') ''Unexpected error'')")
      case (Inl y)
      with rl r show ?thesis by (intro normalizeAIError_refines) auto
    next
      case (Inr b)
      with rl r show ?thesis
        by (intro normalizeAIError_refines) (auto dest: networkError_returned)
    qed
  next
    case rr: (Inr s)
    show ?thesis
    proof (cases "networkError error (getString (field error ''name'') ''Error'')
                    (getString (field error ''message'') ''Unexpected error'')")
      case (Inl y)
      with rr r show ?thesis
        by (intro normalizeAIError_refines) (auto dest: readStatusFrom_returned)
    next
      case (Inr b)
      with rr r show ?thesis
        by (intro normalizeAIError_refines)
           (auto dest: networkError_returned readStatusFrom_returned)
    qed
  qed
  with n show ?thesis by (simp add: refines_def)
qed

subsection \<open>Inputs on which nothing throws\<close>

lemma optChain_gettable: "gettable v k \<Longrightarrow> optChain v k = Inr (field v k)"
  by (cases v) (auto simp: optChain_def outcome_def split: sum.splits)

lemma getProp_gettable: "gettable v k \<Longrightarrow> isObject v \<Longrightarrow> getProp v k = Inr (field v k)"
  by (cases v) (auto simp: isObject_def outcome_def split: sum.splits)

lemma readable_gettable: "readable v k \<Longrightarrow> gettable v k"
  by (cases v) simp_all

lemma plain_gettable: "\<not> exotic v \<Longrightarrow> gettable v k"
  by (cases v) simp_all

lemma instanceofOp_walkable: "walkable v \<Longrightarrow> instanceofOp v c = Inr (instanceof v c)"
  by (cases v) (auto simp: outcome_def split: sum.splits)

lemma hasProp_readable: "readable v k \<Longrightarrow> \<exists>b. hasProp v k = Inr b"
  by (cases v) (auto simp: hasProp_def isObject_def outcome_def split: sum.splits)

lemma hasNumber_readable:
  assumes r: "readable v k"
  shows "\<exists>b. hasNumber v k = Inr b"
proof -
  obtain h where h: "hasProp v k = Inr h"
    using hasProp_readable [OF r] by blast
  have "h \<Longrightarrow> getProp v k = Inr (field v k)"
    using h r
    by (auto intro!: getProp_gettable readable_gettable simp: hasProp_def split: if_splits)
  then show ?thesis
    by (auto simp: hasNumber_def h)
qed

lemma returnNumber_readable:
  "readable v k \<Longrightarrow> isObject v \<Longrightarrow> \<exists>r. returnNumber v k = Inr r"
  by (simp add: returnNumber_def getProp_gettable readable_gettable)

lemma hasNumber_isObject: "hasNumber v k = Inr True \<Longrightarrow> isObject v"
  by (auto simp: hasNumber_def hasProp_def bindE_eq_Inr split: if_splits)

lemma readStatusFrom_quiet:
  assumes q: "quiet error"
  shows "readStatusFrom error = Inr (statusByPriority error)"
proof -
  from q have k: "readable error ''status''" "readable error ''statusCode''"
    "readable error ''response''" "readable (field error ''response'') ''status''"
    by (simp_all add: quiet_def)
  obtain c1 where c1: "hasNumber error ''status'' = Inr c1"
    using hasNumber_readable [OF k(1)] by blast
  obtain c2 where c2: "hasNumber error ''statusCode'' = Inr c2"
    using hasNumber_readable [OF k(2)] by blast
  obtain h where h: "hasProp error ''response'' = Inr h"
    using hasProp_readable [OF k(3)] by blast
  obtain c3 where c3: "hasNumber (field error ''response'') ''status'' = Inr c3"
    using hasNumber_readable [OF k(4)] by blast
  have r1: "c1 \<Longrightarrow> \<exists>r. returnNumber error ''status'' = Inr r"
    using c1 by (auto intro!: returnNumber_readable k dest: hasNumber_isObject)
  have r2: "c2 \<Longrightarrow> \<exists>r. returnNumber error ''statusCode'' = Inr r"
    using c2 by (auto intro!: returnNumber_readable k dest: hasNumber_isObject)
  have r3: "c3 \<Longrightarrow> \<exists>r. returnNumber (field error ''response'') ''status'' = Inr r"
    using c3 by (auto intro!: returnNumber_readable k dest: hasNumber_isObject)
  have g: "h \<Longrightarrow> getProp error ''response'' = Inr (field error ''response'')"
    using h k(3)
    by (auto intro!: getProp_gettable readable_gettable simp: hasProp_def split: if_splits)
  have "\<exists>r. readStatusFrom error = Inr r"
    unfolding readStatusFrom_def
    using r1 r2 r3 g by (auto simp: c1 c2 c3 h)
  then obtain r where r: "readStatusFrom error = Inr r" ..
  from readStatusFrom_returned [OF r] r show ?thesis
    by simp
qed

lemma networkError_readable:
  assumes c: "readable error ''code''"
  shows "networkError error nm msg =
     Inr (map_option (\<lambda>c. \<lparr>status = Finite 502, code = ''network.'' @ toLowerCase c,
                            name = nm, message = msg, retryAfterMs = None\<rparr>) (networkCode error))"
proof -
  obtain h where h: "hasProp error ''code'' = Inr h"
    using hasProp_readable [OF c] by blast
  have g: "h \<Longrightarrow> getProp error ''code'' = Inr (field error ''code'')"
    using h c
    by (auto intro!: getProp_gettable readable_gettable simp: hasProp_def split: if_splits)
  have "\<exists>r. networkError error nm msg = Inr r"
    unfolding networkError_def using g by (auto simp: h)
  then obtain r where r: "networkError error nm msg = Inr r" ..
  from networkError_returned [OF r] r show ?thesis
    by simp
qed

lemma normalizeAIError_quiet:
  assumes q: "quiet error"
  shows "normalizeAIError error = Inr (ruleTable error)"
proof -
  from q have k: "gettable error ''name''" "gettable error ''message''" "walkable error"
    "readable error ''code''"
    by (simp_all add: quiet_def)
  note nv = optChain_gettable [OF k(1)]
  note mv = optChain_gettable [OF k(2)]
  note hn = hasName_after_read [OF nv]
  have "\<exists>n. normalizeAIError error = Inr n"
    unfolding normalizeAIError_def nv mv hn instanceofOp_walkable [OF k(3)] orElse_Inr
      readStatusFrom_quiet [OF q] networkError_readable [OF k(4)] bindE_Inr
    by (simp split: option.splits)
  then obtain n where n: "normalizeAIError error = Inr n" ..
  from normalizeAIError_returned [OF n] n show ?thesis
    by simp
qed

lemma ordinary_quiet: "ordinary error \<Longrightarrow> quiet error"
  by (cases error; cases "field error ''response''") (simp_all add: ordinary_def quiet_def)


lemma strictEq_Finite: "strictEq s (Finite r) = (s = Finite r)"
  by (cases s) simp_all

lemma toLowerCase_codes:
  "toLowerCase ''ETIMEDOUT'' = ''etimedout''"
  "toLowerCase ''ECONNRESET'' = ''econnreset''"
  "toLowerCase ''ENOTFOUND'' = ''enotfound''"
  by code_simp+

lemma optChain_thrown:
  "optChain error ''name'' = Inl x \<Longrightarrow> normalizeAIError error = Inl x"
  by (simp add: normalizeAIError_def)

section \<open>When the classifier returns\<close>

text \<open>
  Claim C1, as stated: the classifier never throws, for every input value. It fails: the
  reads of \<open>name\<close> and \<open>message\<close> stand outside any \<open>try\<close>, so an object whose \<open>name\<close>
  accessor throws, or a revoked \<open>Proxy\<close>, makes the classifier throw.
\<close>

theorem normalizeAIError_throws_counterexample:
  "normalizeAIError throwingName = Inl (Thrown (String ''boom'')) \<and>
   normalizeAIError revokedProxy = Inl (Thrown typeError)"
  by (simp add: normalizeAIError_def throwingName_def revokedProxy_def optChain_def)

text \<open>
  Claim C1, amended: the classifier returns a record for every input value on which the
  operations it applies do not throw (the reads of \<open>name\<close>, \<open>message\<close>, \<open>code\<close>,
  \<open>status\<close>, \<open>statusCode\<close>, \<open>response\<close> and \<open>response.status\<close>, the \<open>in\<close> tests and
  \<open>instanceof\<close>). That covers every value without exotic parts: \<open>null\<close>, numbers,
  strings, plain objects, objects with missing or wrongly typed fields. When nothing
  matches the record has status 500 and code \<open>unknown\<close>, with the defensively read name
  and message. The classifier catches nothing: what the read of \<open>name\<close> or of \<open>message\<close>
  throws leaves the classifier.
\<close>

theorem normalizeAIError_returns_unless_thrown:
  "(ordinary error \<longrightarrow> quiet error) \<and>
   (quiet error \<longrightarrow> (\<exists>n. normalizeAIError error = Inr n)) \<and>
   (quiet error \<and> (\<forall>c. \<not> instanceof error c)
      \<and> getString (field error ''name'') '''' \<notin> set ruleNames
      \<and> networkCode error = None \<longrightarrow>
    normalizeAIError error =
      Inr \<lparr>status = Finite 500, code = ''unknown'',
           name = getString (field error ''name'') ''Error'',
           message = getString (field error ''message'') ''Unexpected error'',
           retryAfterMs = None\<rparr>) \<and>
   (\<forall>x. optChain error ''name'' = Inl x \<longrightarrow> normalizeAIError error = Inl x) \<and>
   (\<forall>v x. optChain error ''name'' = Inr v \<and> optChain error ''message'' = Inl x
      \<longrightarrow> normalizeAIError error = Inl x)"
proof (intro conjI impI allI)
  assume "ordinary error"
  then show "quiet error" by (rule ordinary_quiet)
next
  assume "quiet error"
  then show "\<exists>n. normalizeAIError error = Inr n"
    by (simp add: normalizeAIError_quiet)
next
  assume "quiet error \<and> (\<forall>c. \<not> instanceof error c)
      \<and> getString (field error ''name'') '''' \<notin> set ruleNames
      \<and> networkCode error = None"
  then show "normalizeAIError error =
      Inr \<lparr>status = Finite 500, code = ''unknown'',
           name = getString (field error ''name'') ''Error'',
           message = getString (field error ''message'') ''Unexpected error'',
           retryAfterMs = None\<rparr>"
    by (simp add: normalizeAIError_quiet ruleTable_def ruleNames_def)
next
  fix x assume "optChain error ''name'' = Inl x"
  then show "normalizeAIError error = Inl x" by (rule optChain_thrown)
next
  fix v x assume "optChain error ''name'' = Inr v \<and> optChain error ''message'' = Inl x"
  then show "normalizeAIError error = Inl x" by (simp add: normalizeAIError_def)
qed

theorem normalizeAIError_returns_unless_thrown_witness:
  "normalizeAIError Null =
     Inr \<lparr>status = Finite 500, code = ''unknown'', name = ''Error'',
          message = ''Unexpected error'', retryAfterMs = None\<rparr> \<and>
   normalizeAIError (Number (Finite 42)) =
     Inr \<lparr>status = Finite 500, code = ''unknown'', name = ''Error'',
          message = ''Unexpected error'', retryAfterMs = None\<rparr> \<and>
   normalizeAIError (String ''just a string'') =
     Inr \<lparr>status = Finite 500, code = ''unknown'', name = ''Error'',
          message = ''Unexpected error'', retryAfterMs = None\<rparr> \<and>
   normalizeAIError (Object [] []) =
     Inr \<lparr>status = Finite 500, code = ''unknown'', name = ''Error'',
          message = ''Unexpected error'', retryAfterMs = None\<rparr> \<and>
   normalizeAIError (Object [] [(''message'', String ''boom''), (''status'', String ''x'')]) =
     Inr \<lparr>status = Finite 500, code = ''unknown'', name = ''Error'',
          message = ''boom'', retryAfterMs = None\<rparr> \<and>
   (\<exists>n. normalizeAIError lazyStack = Inr n) \<and>
   normalizeAIError throwingName = Inl (Thrown (String ''boom''))"
proof -
  note t = normalizeAIError_returns_unless_thrown
  have 1: "normalizeAIError Null =
     Inr \<lparr>status = Finite 500, code = ''unknown'', name = ''Error'',
          message = ''Unexpected error'', retryAfterMs = None\<rparr>"
    using t [of Null] by (simp add: quiet_def getString_def ruleNames_def networkCode_def isObject_def)
  have 2: "normalizeAIError (Number (Finite 42)) =
     Inr \<lparr>status = Finite 500, code = ''unknown'', name = ''Error'',
          message = ''Unexpected error'', retryAfterMs = None\<rparr>"
    using t [of "Number (Finite 42)"]
    by (simp add: quiet_def getString_def ruleNames_def networkCode_def isObject_def)
  have 3: "normalizeAIError (String ''just a string'') =
     Inr \<lparr>status = Finite 500, code = ''unknown'', name = ''Error'',
          message = ''Unexpected error'', retryAfterMs = None\<rparr>"
    using t [of "String ''just a string''"]
    by (simp add: quiet_def getString_def ruleNames_def networkCode_def isObject_def)
  have 4: "normalizeAIError (Object [] []) =
     Inr \<lparr>status = Finite 500, code = ''unknown'', name = ''Error'',
          message = ''Unexpected error'', retryAfterMs = None\<rparr>"
    using t [of "Object [] []"]
    by (simp add: quiet_def getString_def ruleNames_def networkCode_def isObject_def)
  have 5: "normalizeAIError (Object [] [(''message'', String ''boom''), (''status'', String ''x'')]) =
     Inr \<lparr>status = Finite 500, code = ''unknown'', name = ''Error'',
          message = ''boom'', retryAfterMs = None\<rparr>"
    using t [of "Object [] [(''message'', String ''boom''), (''status'', String ''x'')]"]
    by (simp add: quiet_def getString_def ruleNames_def networkCode_def isObject_def)
  have 6: "\<exists>n. normalizeAIError lazyStack = Inr n"
    using t [of lazyStack] by (simp add: quiet_def lazyStack_def)
  have 7: "normalizeAIError throwingName = Inl (Thrown (String ''boom''))"
    using t [of throwingName] by (simp add: throwingName_def optChain_def)
  from 1 2 3 4 5 6 7 show ?thesis by blast
qed

section \<open>Statuses\<close>


section \<open>The rule for a missing API key\<close>

text \<open>
  Claim C3, as stated: the plain object \<open>{name: "LoadAPIKeyError"}\<close> is classified with
  status 401 and code \<open>auth.no_api_key\<close>. It fails: the rule tests \<open>instanceof\<close>, not the
  name, and no later rule tests this name, so the object falls through to the default.
\<close>

theorem plain_LoadAPIKeyError_counterexample:
  "normalizeAIError (Object [] [(''name'', String ''LoadAPIKeyError'')]) =
     Inr \<lparr>status = Finite 500, code = ''unknown'', name = ''LoadAPIKeyError'',
          message = ''Unexpected error'', retryAfterMs = None\<rparr>
   \<and> Finite 500 \<noteq> Finite 401 \<and> ''unknown'' \<noteq> ''auth.no_api_key''"
  by (simp add: normalizeAIError_quiet quiet_def ruleTable_def getString_def networkCode_def
        isObject_def)
text \<open>
  Claim C3, amended: a value that is an instance of the class \<open>LoadAPIKeyError\<close> is
  classified with status 401 and code \<open>auth.no_api_key\<close>; a value that is an instance of
  no imported class and only carries the name \<open>LoadAPIKeyError\<close> (and no network code) is
  classified with status 500 and code \<open>unknown\<close>. This is the record returned on any
  input, and it is returned on every input on which nothing throws.
\<close>

theorem LoadAPIKeyError_instance:
  "(quiet error \<longrightarrow>
     (instanceof error LoadAPIKeyError \<longrightarrow>
        normalizeAIError error =
          Inr \<lparr>status = Finite 401, code = ''auth.no_api_key'',
               name = getString (field error ''name'') ''Error'',
               message = ''Missing or invalid API key'', retryAfterMs = None\<rparr>) \<and>
     ((\<forall>c. \<not> instanceof error c) \<and> field error ''name'' = String ''LoadAPIKeyError''
        \<and> networkCode error = None \<longrightarrow>
        normalizeAIError error =
          Inr \<lparr>status = Finite 500, code = ''unknown'', name = ''LoadAPIKeyError'',
               message = getString (field error ''message'') ''Unexpected error'',
               retryAfterMs = None\<rparr>)) \<and>
   (\<forall>n. normalizeAIError error = Inr n \<longrightarrow>
     (instanceof error LoadAPIKeyError \<longrightarrow>
        n = \<lparr>status = Finite 401, code = ''auth.no_api_key'',
             name = getString (field error ''name'') ''Error'',
             message = ''Missing or invalid API key'', retryAfterMs = None\<rparr>) \<and>
     ((\<forall>c. \<not> instanceof error c) \<and> field error ''name'' = String ''LoadAPIKeyError''
        \<and> networkCode error = None \<longrightarrow>
        n = \<lparr>status = Finite 500, code = ''unknown'', name = ''LoadAPIKeyError'',
             message = getString (field error ''message'') ''Unexpected error'',
             retryAfterMs = None\<rparr>))"
proof -
  have p: "(instanceof error LoadAPIKeyError \<longrightarrow>
        ruleTable error = \<lparr>status = Finite 401, code = ''auth.no_api_key'',
             name = getString (field error ''name'') ''Error'',
             message = ''Missing or invalid API key'', retryAfterMs = None\<rparr>) \<and>
     ((\<forall>c. \<not> instanceof error c) \<and> field error ''name'' = String ''LoadAPIKeyError''
        \<and> networkCode error = None \<longrightarrow>
        ruleTable error = \<lparr>status = Finite 500, code = ''unknown'', name = ''LoadAPIKeyError'',
             message = getString (field error ''message'') ''Unexpected error'',
             retryAfterMs = None\<rparr>)"
    by (simp add: ruleTable_def getString_def)
  show ?thesis
    using p by (auto simp: normalizeAIError_quiet dest!: normalizeAIError_returned)
qed

theorem LoadAPIKeyError_instance_witness:
  "normalizeAIError (Object [AISDKError, LoadAPIKeyError]
       [(''name'', String ''AI_LoadAPIKeyError''), (''message'', String ''key is missing'')]) =
     Inr \<lparr>status = Finite 401, code = ''auth.no_api_key'', name = ''AI_LoadAPIKeyError'',
          message = ''Missing or invalid API key'', retryAfterMs = None\<rparr> \<and>
   normalizeAIError (Object [] [(''name'', String ''LoadAPIKeyError'')]) =
     Inr \<lparr>status = Finite 500, code = ''unknown'', name = ''LoadAPIKeyError'',
          message = ''Unexpected error'', retryAfterMs = None\<rparr>"
  using LoadAPIKeyError_instance
          [of "Object [AISDKError, LoadAPIKeyError]
                 [(''name'', String ''AI_LoadAPIKeyError''),
                  (''message'', String ''key is missing'')]", THEN conjunct1]
        LoadAPIKeyError_instance [of "Object [] [(''name'', String ''LoadAPIKeyError'')]",
                  THEN conjunct1]
  by (simp add: quiet_def getString_def networkCode_def isObject_def)
section \<open>The message of the result\<close>

text \<open>
  Claim C4, as stated: in every branch the message of the result is the input's own
  \<open>message\<close> when that is a string. It fails in the first branch: a \<open>LoadAPIKeyError\<close>
  instance with its own message is returned with the literal
  \<open>Missing or invalid API key\<close>.
\<close>

theorem message_replaced_counterexample:
  "normalizeAIError (Object [AISDKError, LoadAPIKeyError]
       [(''name'', String ''AI_LoadAPIKeyError''), (''message'', String ''key is missing'')]) =
     Inr \<lparr>status = Finite 401, code = ''auth.no_api_key'', name = ''AI_LoadAPIKeyError'',
          message = ''Missing or invalid API key'', retryAfterMs = None\<rparr>
   \<and> ''Missing or invalid API key'' \<noteq> ''key is missing''"
  by (simp add: normalizeAIError_quiet quiet_def ruleTable_def getString_def)
text \<open>
  Claim C4, amended: for every input the message of the result is the input's own
  \<open>message\<close> property when that property is present and a string, and
  \<open>Unexpected error\<close> otherwise, in every branch but the one for instances of
  \<open>LoadAPIKeyError\<close>, whose message is the literal \<open>Missing or invalid API key\<close>. On an
  input with exotic parts the message of a returned record is what the read of
  \<open>message\<close> gave.
\<close>

theorem message_preserved:
  "(ordinary error \<longrightarrow>
     (\<exists>n. normalizeAIError error = Inr n \<and>
        message n =
          (if instanceof error LoadAPIKeyError then ''Missing or invalid API key''
           else (case props error ''message'' of
                   Some (String s) \<Rightarrow> s
                 | _ \<Rightarrow> ''Unexpected error'')))) \<and>
   (\<forall>n. normalizeAIError error = Inr n \<longrightarrow>
        message n =
          (if instanceof error LoadAPIKeyError then ''Missing or invalid API key''
           else (case field error ''message'' of
                   String s \<Rightarrow> s
                 | _ \<Rightarrow> ''Unexpected error'')))"
proof -
  have m: "ordinary error \<Longrightarrow> getString (field error ''message'') ''Unexpected error'' =
        (case props error ''message'' of Some (String s) \<Rightarrow> s | _ \<Rightarrow> ''Unexpected error'')"
    by (cases error) (simp_all add: ordinary_def getString_def split: option.splits val.splits)
  have p: "message (ruleTable error) =
          (if instanceof error LoadAPIKeyError then ''Missing or invalid API key''
           else getString (field error ''message'') ''Unexpected error'')"
    by (simp add: ruleTable_def split: option.splits)
  have g: "getString (field error ''message'') ''Unexpected error'' =
     (case field error ''message'' of String s \<Rightarrow> s | _ \<Rightarrow> ''Unexpected error'')"
    by (simp add: getString_def)
  show ?thesis
  proof (intro conjI impI allI)
    assume o: "ordinary error"
    then have "normalizeAIError error = Inr (ruleTable error)"
      by (simp add: normalizeAIError_quiet ordinary_quiet)
    with p m [OF o] show "\<exists>n. normalizeAIError error = Inr n \<and>
        message n =
          (if instanceof error LoadAPIKeyError then ''Missing or invalid API key''
           else (case props error ''message'' of
                   Some (String s) \<Rightarrow> s
                 | _ \<Rightarrow> ''Unexpected error''))"
      by simp
  next
    fix n assume "normalizeAIError error = Inr n"
    then have "n = ruleTable error" by (rule normalizeAIError_returned)
    with p g show "message n =
          (if instanceof error LoadAPIKeyError then ''Missing or invalid API key''
           else (case field error ''message'' of
                   String s \<Rightarrow> s
                 | _ \<Rightarrow> ''Unexpected error''))"
      by simp
  qed
qed

theorem message_preserved_witness:
  "\<exists>n. normalizeAIError (Object [AISDKError] [(''message'', String ''quota exceeded'')]) = Inr n
        \<and> message n = ''quota exceeded''"
  using message_preserved [of "Object [AISDKError] [(''message'', String ''quota exceeded'')]",
          THEN conjunct1]
  by (simp add: ordinary_def)
section \<open>The optional retry delay\<close>

text \<open>
  Claim C10. For every input the result has no \<open>retryAfterMs\<close>: no rule sets the optional
  member, whatever the input; and a result exists on every input on which nothing throws.
\<close>

theorem retryAfterMs_never_set:
  "(quiet error \<longrightarrow> (\<exists>n. normalizeAIError error = Inr n \<and> retryAfterMs n = None)) \<and>
   (\<forall>n. normalizeAIError error = Inr n \<longrightarrow> retryAfterMs n = None)"
proof -
  have p: "retryAfterMs (ruleTable error) = None"
    by (simp add: ruleTable_def split: option.splits)
  show ?thesis
    using p by (auto simp: normalizeAIError_quiet dest!: normalizeAIError_returned)
qed

theorem retryAfterMs_never_set_witness:
  "\<exists>n. normalizeAIError
          (Object [AISDKError, APICallError]
             [(''statusCode'', Number (Finite 429)), (''retryAfterMs'', Number (Finite 1000))])
        = Inr n \<and> retryAfterMs n = None"
  using retryAfterMs_never_set
    [of "Object [AISDKError, APICallError]
           [(''statusCode'', Number (Finite 429)), (''retryAfterMs'', Number (Finite 1000))]",
     THEN conjunct1]
  by (simp add: quiet_def)

section \<open>The \<open>APICallError\<close> branch\<close>

text \<open>
  Claim C5. For every \<open>APICallError\<close> input (an instance of \<open>APICallError\<close> that the
  earlier rules leave alone, being an instance of none of the classes tested before it)
  the returned status is the extracted status (502 when none is extracted) and the code
  follows the table: 401 \<open>auth.unauthorized\<close>, 403 \<open>auth.forbidden\<close>, 404
  \<open>provider.not_found\<close>, 409 \<open>provider.conflict\<close>, 422 \<open>provider.unprocessable\<close>, 429
  \<open>provider.rate_limited\<close>, any status at least 500 \<open>provider.error\<close>, and any other
  status \<open>provider.request_failed\<close>. This holds of the record returned on any such input,
  and a record is returned on every such input on which nothing throws.
\<close>

theorem apiCallError_mapping:
  assumes "instanceof error APICallError"
    and "\<forall>c \<in> set earlierClasses. \<not> instanceof error c"
  shows "(quiet error \<longrightarrow> (\<exists>n. normalizeAIError error = Inr n \<and>
     status n = (case statusByPriority error of Some s \<Rightarrow> s | None \<Rightarrow> Finite 502) \<and>
     code n =
       (if status n = Finite 401 then ''auth.unauthorized''
        else if status n = Finite 403 then ''auth.forbidden''
        else if status n = Finite 404 then ''provider.not_found''
        else if status n = Finite 409 then ''provider.conflict''
        else if status n = Finite 422 then ''provider.unprocessable''
        else if status n = Finite 429 then ''provider.rate_limited''
        else if greaterEq (status n) (Finite 500) then ''provider.error''
        else ''provider.request_failed''))) \<and>
   (\<forall>n. normalizeAIError error = Inr n \<longrightarrow>
     status n = (case statusByPriority error of Some s \<Rightarrow> s | None \<Rightarrow> Finite 502) \<and>
     code n =
       (if status n = Finite 401 then ''auth.unauthorized''
        else if status n = Finite 403 then ''auth.forbidden''
        else if status n = Finite 404 then ''provider.not_found''
        else if status n = Finite 409 then ''provider.conflict''
        else if status n = Finite 422 then ''provider.unprocessable''
        else if status n = Finite 429 then ''provider.rate_limited''
        else if greaterEq (status n) (Finite 500) then ''provider.error''
        else ''provider.request_failed'') \<and>
     (\<forall>r. status n = Finite r \<and> 500 \<le> r \<longrightarrow> code n = ''provider.error'') \<and>
     (\<forall>r. status n = Finite r \<and> r < 500 \<and> r \<notin> {401, 403, 404, 409, 422, 429}
          \<longrightarrow> code n = ''provider.request_failed''))"
proof -
  have p: "status (ruleTable error) =
        (case statusByPriority error of Some s \<Rightarrow> s | None \<Rightarrow> Finite 502) \<and>
     code (ruleTable error) =
       (if status (ruleTable error) = Finite 401 then ''auth.unauthorized''
        else if status (ruleTable error) = Finite 403 then ''auth.forbidden''
        else if status (ruleTable error) = Finite 404 then ''provider.not_found''
        else if status (ruleTable error) = Finite 409 then ''provider.conflict''
        else if status (ruleTable error) = Finite 422 then ''provider.unprocessable''
        else if status (ruleTable error) = Finite 429 then ''provider.rate_limited''
        else if greaterEq (status (ruleTable error)) (Finite 500) then ''provider.error''
        else ''provider.request_failed'')"
    using assms
    by (simp add: ruleTable_def earlierClasses_def orDefault_def apiCallCode_def strictEq_Finite)
  have b: "(\<forall>r. status (ruleTable error) = Finite r \<and> 500 \<le> r
              \<longrightarrow> code (ruleTable error) = ''provider.error'') \<and>
     (\<forall>r. status (ruleTable error) = Finite r \<and> r < 500 \<and> r \<notin> {401, 403, 404, 409, 422, 429}
          \<longrightarrow> code (ruleTable error) = ''provider.request_failed'')"
    using p by auto
  show ?thesis
  proof (intro conjI impI allI)
    assume "quiet error"
    then have "normalizeAIError error = Inr (ruleTable error)"
      by (rule normalizeAIError_quiet)
    with p show "\<exists>n. normalizeAIError error = Inr n \<and>
     status n = (case statusByPriority error of Some s \<Rightarrow> s | None \<Rightarrow> Finite 502) \<and>
     code n =
       (if status n = Finite 401 then ''auth.unauthorized''
        else if status n = Finite 403 then ''auth.forbidden''
        else if status n = Finite 404 then ''provider.not_found''
        else if status n = Finite 409 then ''provider.conflict''
        else if status n = Finite 422 then ''provider.unprocessable''
        else if status n = Finite 429 then ''provider.rate_limited''
        else if greaterEq (status n) (Finite 500) then ''provider.error''
        else ''provider.request_failed'')"
      by blast
  next
    fix n assume "normalizeAIError error = Inr n"
    then have n: "n = ruleTable error" by (rule normalizeAIError_returned)
    from p show "status n = (case statusByPriority error of Some s \<Rightarrow> s | None \<Rightarrow> Finite 502)"
      unfolding n by blast
    from p show "code n =
       (if status n = Finite 401 then ''auth.unauthorized''
        else if status n = Finite 403 then ''auth.forbidden''
        else if status n = Finite 404 then ''provider.not_found''
        else if status n = Finite 409 then ''provider.conflict''
        else if status n = Finite 422 then ''provider.unprocessable''
        else if status n = Finite 429 then ''provider.rate_limited''
        else if greaterEq (status n) (Finite 500) then ''provider.error''
        else ''provider.request_failed'')"
      unfolding n by blast
    fix r
    from b show "status n = Finite r \<and> 500 \<le> r \<Longrightarrow> code n = ''provider.error''"
      unfolding n by blast
    from b show "status n = Finite r \<and> r < 500 \<and> r \<notin> {401, 403, 404, 409, 422, 429}
          \<Longrightarrow> code n = ''provider.request_failed''"
      unfolding n by blast
  qed
qed

theorem apiCallError_mapping_witness:
  "(\<exists>n. normalizeAIError (Object [APICallError] [(''statusCode'', Number (Finite 418))]) = Inr n
        \<and> status n = Finite 418 \<and> code n = ''provider.request_failed'') \<and>
   (\<exists>n. normalizeAIError (Object [APICallError] [(''status'', Number (Finite 429))]) = Inr n
        \<and> status n = Finite 429 \<and> code n = ''provider.rate_limited'') \<and>
   (\<exists>n. normalizeAIError (Object [APICallError] [(''status'', Number (Finite 401))]) = Inr n
        \<and> status n = Finite 401 \<and> code n = ''auth.unauthorized'') \<and>
   (\<exists>n. normalizeAIError (Object [APICallError] [(''status'', Number (Finite 500))]) = Inr n
        \<and> status n = Finite 500 \<and> code n = ''provider.error'') \<and>
   (\<exists>n. normalizeAIError (Object [APICallError] [(''status'', Number (Finite 499))]) = Inr n
        \<and> status n = Finite 499 \<and> code n = ''provider.request_failed'') \<and>
   (\<exists>n. normalizeAIError (Object [APICallError] []) = Inr n
        \<and> status n = Finite 502 \<and> code n = ''provider.error'')"
proof -
  have inst: "instanceof (Object [APICallError] ps) APICallError" for ps
    by simp
  have early: "\<forall>c \<in> set earlierClasses. \<not> instanceof (Object [APICallError] ps) c" for ps
    by (simp add: earlierClasses_def)
  have q: "quiet (Object [APICallError] [(k, Number x)])" "quiet (Object [APICallError] [])"
    for k x
    by (simp_all add: quiet_def)
  have sp:
    "statusByPriority (Object cs [(k, Number x)]) =
       (if k = ''status'' \<or> k = ''statusCode'' then Some x else None)"
    "statusByPriority (Object cs []) = None" for cs k x
    by (simp_all add: statusByPriority_def numericField_def nestedNumericField_def isObject_def)
  note t = apiCallError_mapping [OF inst early, THEN conjunct1, rule_format]
  have 1: "\<exists>n. normalizeAIError (Object [APICallError] [(''statusCode'', Number (Finite 418))])
               = Inr n \<and> status n = Finite 418 \<and> code n = ''provider.request_failed''"
    using t [OF q(1), of "''statusCode''" "Finite 418"]
    by (clarsimp simp: sp)
  have 2: "\<exists>n. normalizeAIError (Object [APICallError] [(''status'', Number (Finite 429))])
               = Inr n \<and> status n = Finite 429 \<and> code n = ''provider.rate_limited''"
    using t [OF q(1), of "''status''" "Finite 429"]
    by (clarsimp simp: sp)
  have 3: "\<exists>n. normalizeAIError (Object [APICallError] [(''status'', Number (Finite 401))])
               = Inr n \<and> status n = Finite 401 \<and> code n = ''auth.unauthorized''"
    using t [OF q(1), of "''status''" "Finite 401"]
    by (clarsimp simp: sp)
  have 4: "\<exists>n. normalizeAIError (Object [APICallError] [(''status'', Number (Finite 500))])
               = Inr n \<and> status n = Finite 500 \<and> code n = ''provider.error''"
    using t [OF q(1), of "''status''" "Finite 500"]
    by (clarsimp simp: sp)
  have 5: "\<exists>n. normalizeAIError (Object [APICallError] [(''status'', Number (Finite 499))])
               = Inr n \<and> status n = Finite 499 \<and> code n = ''provider.request_failed''"
    using t [OF q(1), of "''status''" "Finite 499"]
    by (clarsimp simp: sp)
  have 6: "\<exists>n. normalizeAIError (Object [APICallError] [])
               = Inr n \<and> status n = Finite 502 \<and> code n = ''provider.error''"
    using t [OF q(2)]
    by (clarsimp simp: sp)
  from 1 2 3 4 5 6 show ?thesis by blast
qed

section \<open>Status extraction\<close>



section \<open>The order of the rules\<close>

text \<open>
  Claim C7. The first matching rule wins. An input whose name is \<open>RetryError\<close> and that no
  class rule takes is classified \<open>provider.retry\<close>, with the status read from the error
  and 503 by default, whatever its \<open>code\<close> field holds: the \<open>RetryError\<close> rule stands
  before the test of the \<open>code\<close> field. An input with a network code that no earlier rule
  takes is classified \<open>network.\<close> followed by the code in lower case, with status 502.
  This holds of the record returned on any input, and a record is returned on every input
  on which nothing throws.
\<close>

theorem rule_order:
  "(quiet error \<longrightarrow>
     (getString (field error ''name'') '''' = ''RetryError''
        \<and> (\<forall>c \<in> set (earlierClasses @ [APICallError]). \<not> instanceof error c) \<longrightarrow>
      (\<exists>n. normalizeAIError error = Inr n \<and> code n = ''provider.retry'' \<and>
           status n = (case statusByPriority error of Some s \<Rightarrow> s | None \<Rightarrow> Finite 503))) \<and>
     (networkCode error = Some c
        \<and> getString (field error ''name'') '''' \<notin> set ruleNames
        \<and> (\<forall>c \<in> set (earlierClasses @ [APICallError]). \<not> instanceof error c) \<longrightarrow>
      (\<exists>n. normalizeAIError error = Inr n \<and> code n = ''network.'' @ toLowerCase c \<and>
           status n = Finite 502))) \<and>
   (\<forall>n. normalizeAIError error = Inr n \<longrightarrow>
     (getString (field error ''name'') '''' = ''RetryError''
        \<and> (\<forall>c \<in> set (earlierClasses @ [APICallError]). \<not> instanceof error c) \<longrightarrow>
      code n = ''provider.retry'' \<and>
      status n = (case statusByPriority error of Some s \<Rightarrow> s | None \<Rightarrow> Finite 503)) \<and>
     (networkCode error = Some c
        \<and> getString (field error ''name'') '''' \<notin> set ruleNames
        \<and> (\<forall>c \<in> set (earlierClasses @ [APICallError]). \<not> instanceof error c) \<longrightarrow>
      code n = ''network.'' @ toLowerCase c \<and> status n = Finite 502))"
proof -
  have p: "(getString (field error ''name'') '''' = ''RetryError''
        \<and> (\<forall>c \<in> set (earlierClasses @ [APICallError]). \<not> instanceof error c) \<longrightarrow>
      code (ruleTable error) = ''provider.retry'' \<and>
      status (ruleTable error) =
        (case statusByPriority error of Some s \<Rightarrow> s | None \<Rightarrow> Finite 503)) \<and>
     (networkCode error = Some c
        \<and> getString (field error ''name'') '''' \<notin> set ruleNames
        \<and> (\<forall>c \<in> set (earlierClasses @ [APICallError]). \<not> instanceof error c) \<longrightarrow>
      code (ruleTable error) = ''network.'' @ toLowerCase c \<and>
      status (ruleTable error) = Finite 502)"
    by (simp add: ruleTable_def earlierClasses_def orDefault_def ruleNames_def)
  show ?thesis
  proof (intro conjI allI)
    show "quiet error \<longrightarrow>
     (getString (field error ''name'') '''' = ''RetryError''
        \<and> (\<forall>c \<in> set (earlierClasses @ [APICallError]). \<not> instanceof error c) \<longrightarrow>
      (\<exists>n. normalizeAIError error = Inr n \<and> code n = ''provider.retry'' \<and>
           status n = (case statusByPriority error of Some s \<Rightarrow> s | None \<Rightarrow> Finite 503))) \<and>
     (networkCode error = Some c
        \<and> getString (field error ''name'') '''' \<notin> set ruleNames
        \<and> (\<forall>c \<in> set (earlierClasses @ [APICallError]). \<not> instanceof error c) \<longrightarrow>
      (\<exists>n. normalizeAIError error = Inr n \<and> code n = ''network.'' @ toLowerCase c \<and>
           status n = Finite 502))"
      using p by (auto simp: normalizeAIError_quiet)
  next
    fix n
    show "normalizeAIError error = Inr n \<longrightarrow>
     (getString (field error ''name'') '''' = ''RetryError''
        \<and> (\<forall>c \<in> set (earlierClasses @ [APICallError]). \<not> instanceof error c) \<longrightarrow>
      code n = ''provider.retry'' \<and>
      status n = (case statusByPriority error of Some s \<Rightarrow> s | None \<Rightarrow> Finite 503)) \<and>
     (networkCode error = Some c
        \<and> getString (field error ''name'') '''' \<notin> set ruleNames
        \<and> (\<forall>c \<in> set (earlierClasses @ [APICallError]). \<not> instanceof error c) \<longrightarrow>
      code n = ''network.'' @ toLowerCase c \<and> status n = Finite 502)"
    proof
      assume "normalizeAIError error = Inr n"
      then have n: "n = ruleTable error" by (rule normalizeAIError_returned)
      from p show "(getString (field error ''name'') '''' = ''RetryError''
        \<and> (\<forall>c \<in> set (earlierClasses @ [APICallError]). \<not> instanceof error c) \<longrightarrow>
      code n = ''provider.retry'' \<and>
      status n = (case statusByPriority error of Some s \<Rightarrow> s | None \<Rightarrow> Finite 503)) \<and>
     (networkCode error = Some c
        \<and> getString (field error ''name'') '''' \<notin> set ruleNames
        \<and> (\<forall>c \<in> set (earlierClasses @ [APICallError]). \<not> instanceof error c) \<longrightarrow>
      code n = ''network.'' @ toLowerCase c \<and> status n = Finite 502)"
        unfolding n .
    qed
  qed
qed

theorem rule_order_witness:
  "(\<exists>n. normalizeAIError (Object [] [(''name'', String ''RetryError''),
                                     (''code'', String ''ETIMEDOUT'')]) = Inr n
        \<and> code n = ''provider.retry'' \<and> status n = Finite 503) \<and>
   (\<exists>n. normalizeAIError (Object [] [(''code'', String ''ETIMEDOUT'')]) = Inr n
        \<and> code n = ''network.etimedout'' \<and> status n = Finite 502)"
proof -
  have 1: "\<exists>n. normalizeAIError (Object [] [(''name'', String ''RetryError''),
                                     (''code'', String ''ETIMEDOUT'')]) = Inr n
        \<and> code n = ''provider.retry'' \<and> status n = Finite 503"
    using rule_order [of "Object [] [(''name'', String ''RetryError''),
                                     (''code'', String ''ETIMEDOUT'')]", THEN conjunct1]
    by (simp add: quiet_def getString_def earlierClasses_def statusByPriority_def
          numericField_def nestedNumericField_def isObject_def)
  have 2: "\<exists>n. normalizeAIError (Object [] [(''code'', String ''ETIMEDOUT'')]) = Inr n
        \<and> code n = ''network.etimedout'' \<and> status n = Finite 502"
    using rule_order [of "Object [] [(''code'', String ''ETIMEDOUT'')]" "''ETIMEDOUT''",
                      THEN conjunct1]
    by (simp add: quiet_def getString_def earlierClasses_def networkCode_def isObject_def
          ruleNames_def toLowerCase_codes)
  from 1 2 show ?thesis by blast
qed

section \<open>The choice of the friendly message\<close>

lemma startsWith_iff: "startsWith s p = (\<exists>r. s = p @ r)"
proof
  assume "startsWith s p"
  then have "s = p @ drop (length p) s"
    by (metis startsWith_def append_take_drop_id)
  then show "\<exists>r. s = p @ r" ..
next
  assume "\<exists>r. s = p @ r"
  then show "startsWith s p" by (auto simp: startsWith_def)
qed

lemma friendly_returned:
  "normalizeAIError error = Inr n \<Longrightarrow>
   getStreamFriendlyMessage error =
     Inr (if startsWith (code n) ''auth.'' then ''Authentication failed (check API key).''
          else if code n = ''provider.rate_limited''
            then ''Rate limited. Please wait and try again.''
          else if startsWith (code n) ''input.''
            then ''Invalid input. Please adjust your request and try again.''
          else if startsWith (code n) ''tool.'' then ''A tool call failed. Please try again.''
          else if startsWith (code n) ''model.''
            then ''Model configuration issue. Please try again later.''
          else if startsWith (code n) ''network.'' then ''Network error. Please retry.''
          else if code n = ''provider.error''
            then ''The model provider had an error. Please retry.''
          else ''Something went wrong. Please try again.'')"
  by (simp add: getStreamFriendlyMessage_def)
text \<open>
  Claim C8, as stated: \<open>getStreamFriendlyMessage\<close> is total. It fails: it calls the
  classifier outside any \<open>try\<close>, so it throws where the classifier throws.
\<close>

theorem friendlyMessage_throws_counterexample:
  "getStreamFriendlyMessage throwingName = Inl (Thrown (String ''boom''))"
  by (simp add: getStreamFriendlyMessage_def normalizeAIError_def throwingName_def optChain_def)

text \<open>
  Claim C8, amended: whenever the classifier returns, and so on every input on which
  nothing throws, \<open>getStreamFriendlyMessage\<close> returns one of eight distinct non-empty
  strings, chosen by the normalized code: the prefixes \<open>auth.\<close>, \<open>input.\<close>, \<open>tool.\<close>,
  \<open>model.\<close>, \<open>network.\<close> and the exact values \<open>provider.rate_limited\<close> and
  \<open>provider.error\<close> each have their string, and every other code has the generic one. So
  an input named \<open>RetryError\<close> is classified \<open>provider.retry\<close> and gets the generic
  string, an instance of \<open>LoadAPIKeyError\<close> the authentication string, an
  \<open>APICallError\<close> with status 429 the rate-limit string, and so on for each string. What
  the classifier throws, \<open>getStreamFriendlyMessage\<close> throws.
\<close>

theorem friendlyMessage_choice:
  "(\<forall>n. normalizeAIError error = Inr n \<longrightarrow>
      (\<exists>s. getStreamFriendlyMessage error = Inr s \<and> s \<in> friendlyMessages \<and> s \<noteq> [] \<and>
         ((\<exists>r. code n = ''auth.'' @ r) \<longrightarrow> s = ''Authentication failed (check API key).'') \<and>
         (code n = ''provider.rate_limited''
            \<longrightarrow> s = ''Rate limited. Please wait and try again.'') \<and>
         ((\<exists>r. code n = ''input.'' @ r)
            \<longrightarrow> s = ''Invalid input. Please adjust your request and try again.'') \<and>
         ((\<exists>r. code n = ''tool.'' @ r) \<longrightarrow> s = ''A tool call failed. Please try again.'') \<and>
         ((\<exists>r. code n = ''model.'' @ r)
            \<longrightarrow> s = ''Model configuration issue. Please try again later.'') \<and>
         ((\<exists>r. code n = ''network.'' @ r) \<longrightarrow> s = ''Network error. Please retry.'') \<and>
         (code n = ''provider.error''
            \<longrightarrow> s = ''The model provider had an error. Please retry.'') \<and>
         ((\<forall>r. code n \<noteq> ''auth.'' @ r \<and> code n \<noteq> ''input.'' @ r \<and> code n \<noteq> ''tool.'' @ r
               \<and> code n \<noteq> ''model.'' @ r \<and> code n \<noteq> ''network.'' @ r)
            \<and> code n \<noteq> ''provider.rate_limited'' \<and> code n \<noteq> ''provider.error''
            \<longrightarrow> s = ''Something went wrong. Please try again.''))) \<and>
   (\<forall>x. normalizeAIError error = Inl x \<longrightarrow> getStreamFriendlyMessage error = Inl x) \<and>
   card friendlyMessages = 8 \<and>
   (quiet error \<longrightarrow>
      (\<exists>s. getStreamFriendlyMessage error = Inr s \<and> s \<in> friendlyMessages \<and> s \<noteq> []) \<and>
      (getString (field error ''name'') '''' = ''RetryError''
         \<and> (\<forall>c \<in> set (earlierClasses @ [APICallError]). \<not> instanceof error c) \<longrightarrow>
       (\<exists>n. normalizeAIError error = Inr n \<and> code n = ''provider.retry'') \<and>
       getStreamFriendlyMessage error = Inr ''Something went wrong. Please try again.'') \<and>
      (instanceof error LoadAPIKeyError \<longrightarrow>
       getStreamFriendlyMessage error = Inr ''Authentication failed (check API key).'') \<and>
      (instanceof error NoSuchModelError \<and> \<not> instanceof error LoadAPIKeyError \<longrightarrow>
       getStreamFriendlyMessage error =
         Inr ''Model configuration issue. Please try again later.'') \<and>
      (instanceof error APICallError \<and> (\<forall>c \<in> set earlierClasses. \<not> instanceof error c)
         \<and> statusByPriority error = Some (Finite 429) \<longrightarrow>
       getStreamFriendlyMessage error = Inr ''Rate limited. Please wait and try again.'') \<and>
      (instanceof error APICallError \<and> (\<forall>c \<in> set earlierClasses. \<not> instanceof error c)
         \<and> statusByPriority error = Some (Finite 503) \<longrightarrow>
       getStreamFriendlyMessage error =
         Inr ''The model provider had an error. Please retry.'') \<and>
      (getString (field error ''name'') '''' = ''NoSuchToolError''
         \<and> (\<forall>c \<in> set (earlierClasses @ [APICallError]). \<not> instanceof error c) \<longrightarrow>
       getStreamFriendlyMessage error = Inr ''A tool call failed. Please try again.'') \<and>
      (getString (field error ''name'') '''' = ''InvalidArgumentError''
         \<and> (\<forall>c \<in> set (earlierClasses @ [APICallError]). \<not> instanceof error c) \<longrightarrow>
       getStreamFriendlyMessage error =
         Inr ''Invalid input. Please adjust your request and try again.'') \<and>
      (networkCode error \<noteq> None
         \<and> getString (field error ''name'') '''' \<notin> set ruleNames
         \<and> (\<forall>c \<in> set (earlierClasses @ [APICallError]). \<not> instanceof error c) \<longrightarrow>
       getStreamFriendlyMessage error = Inr ''Network error. Please retry.''))"
proof (intro conjI allI impI)
  fix n assume "normalizeAIError error = Inr n"
  note f = friendly_returned [OF this]
  show "\<exists>s. getStreamFriendlyMessage error = Inr s \<and> s \<in> friendlyMessages \<and> s \<noteq> [] \<and>
         ((\<exists>r. code n = ''auth.'' @ r) \<longrightarrow> s = ''Authentication failed (check API key).'') \<and>
         (code n = ''provider.rate_limited''
            \<longrightarrow> s = ''Rate limited. Please wait and try again.'') \<and>
         ((\<exists>r. code n = ''input.'' @ r)
            \<longrightarrow> s = ''Invalid input. Please adjust your request and try again.'') \<and>
         ((\<exists>r. code n = ''tool.'' @ r) \<longrightarrow> s = ''A tool call failed. Please try again.'') \<and>
         ((\<exists>r. code n = ''model.'' @ r)
            \<longrightarrow> s = ''Model configuration issue. Please try again later.'') \<and>
         ((\<exists>r. code n = ''network.'' @ r) \<longrightarrow> s = ''Network error. Please retry.'') \<and>
         (code n = ''provider.error''
            \<longrightarrow> s = ''The model provider had an error. Please retry.'') \<and>
         ((\<forall>r. code n \<noteq> ''auth.'' @ r \<and> code n \<noteq> ''input.'' @ r \<and> code n \<noteq> ''tool.'' @ r
               \<and> code n \<noteq> ''model.'' @ r \<and> code n \<noteq> ''network.'' @ r)
            \<and> code n \<noteq> ''provider.rate_limited'' \<and> code n \<noteq> ''provider.error''
            \<longrightarrow> s = ''Something went wrong. Please try again.'')"
    unfolding f startsWith_iff
    by (auto simp: friendlyMessages_def)
next
  fix x assume "normalizeAIError error = Inl x"
  then show "getStreamFriendlyMessage error = Inl x"
    by (simp add: getStreamFriendlyMessage_def)
next
  show "card friendlyMessages = 8"
    by (simp add: friendlyMessages_def)
next
  assume "quiet error"
  note f = friendly_returned [OF normalizeAIError_quiet [OF this]]
  show "\<exists>s. getStreamFriendlyMessage error = Inr s \<and> s \<in> friendlyMessages \<and> s \<noteq> []"
    unfolding f by (simp add: friendlyMessages_def)
next
  assume q: "quiet error"
    and h: "getString (field error ''name'') '''' = ''RetryError''
         \<and> (\<forall>c \<in> set (earlierClasses @ [APICallError]). \<not> instanceof error c)"
  note r = normalizeAIError_quiet [OF q]
  from h have c: "code (ruleTable error) = ''provider.retry''"
    by (simp add: ruleTable_def earlierClasses_def)
  with r show "\<exists>n. normalizeAIError error = Inr n \<and> code n = ''provider.retry''"
    by simp
  show "getStreamFriendlyMessage error = Inr ''Something went wrong. Please try again.''"
    unfolding friendly_returned [OF r] c by (simp add: startsWith_def)
next
  assume q: "quiet error" and h: "instanceof error LoadAPIKeyError"
  note r = normalizeAIError_quiet [OF q]
  from h have c: "code (ruleTable error) = ''auth.no_api_key''"
    by (simp add: ruleTable_def)
  show "getStreamFriendlyMessage error = Inr ''Authentication failed (check API key).''"
    unfolding friendly_returned [OF r] c by (simp add: startsWith_def)
next
  assume q: "quiet error"
    and h: "instanceof error NoSuchModelError \<and> \<not> instanceof error LoadAPIKeyError"
  note r = normalizeAIError_quiet [OF q]
  from h have c: "code (ruleTable error) = ''model.not_found''"
    by (simp add: ruleTable_def)
  show "getStreamFriendlyMessage error =
         Inr ''Model configuration issue. Please try again later.''"
    unfolding friendly_returned [OF r] c by (simp add: startsWith_def)
next
  assume q: "quiet error"
    and h: "instanceof error APICallError \<and> (\<forall>c \<in> set earlierClasses. \<not> instanceof error c)
         \<and> statusByPriority error = Some (Finite 429)"
  note r = normalizeAIError_quiet [OF q]
  from h have c: "code (ruleTable error) = ''provider.rate_limited''"
    by (simp add: ruleTable_def earlierClasses_def orDefault_def apiCallCode_def)
  show "getStreamFriendlyMessage error = Inr ''Rate limited. Please wait and try again.''"
    unfolding friendly_returned [OF r] c by (simp add: startsWith_def)
next
  assume q: "quiet error"
    and h: "instanceof error APICallError \<and> (\<forall>c \<in> set earlierClasses. \<not> instanceof error c)
         \<and> statusByPriority error = Some (Finite 503)"
  note r = normalizeAIError_quiet [OF q]
  from h have c: "code (ruleTable error) = ''provider.error''"
    by (simp add: ruleTable_def earlierClasses_def orDefault_def apiCallCode_def)
  show "getStreamFriendlyMessage error =
         Inr ''The model provider had an error. Please retry.''"
    unfolding friendly_returned [OF r] c by (simp add: startsWith_def)
next
  assume q: "quiet error"
    and h: "getString (field error ''name'') '''' = ''NoSuchToolError''
         \<and> (\<forall>c \<in> set (earlierClasses @ [APICallError]). \<not> instanceof error c)"
  note r = normalizeAIError_quiet [OF q]
  from h have c: "code (ruleTable error) = ''tool.invalid''"
    by (simp add: ruleTable_def earlierClasses_def)
  show "getStreamFriendlyMessage error = Inr ''A tool call failed. Please try again.''"
    unfolding friendly_returned [OF r] c by (simp add: startsWith_def)
next
  assume q: "quiet error"
    and h: "getString (field error ''name'') '''' = ''InvalidArgumentError''
         \<and> (\<forall>c \<in> set (earlierClasses @ [APICallError]). \<not> instanceof error c)"
  note r = normalizeAIError_quiet [OF q]
  from h have c: "code (ruleTable error) = ''input.invalid''"
    by (simp add: ruleTable_def earlierClasses_def)
  show "getStreamFriendlyMessage error =
         Inr ''Invalid input. Please adjust your request and try again.''"
    unfolding friendly_returned [OF r] c by (simp add: startsWith_def)
next
  assume q: "quiet error"
    and h: "networkCode error \<noteq> None
         \<and> getString (field error ''name'') '''' \<notin> set ruleNames
         \<and> (\<forall>c \<in> set (earlierClasses @ [APICallError]). \<not> instanceof error c)"
  note r = normalizeAIError_quiet [OF q]
  from h obtain nc where "networkCode error = Some nc" by auto
  with h have c: "code (ruleTable error) = ''network.'' @ toLowerCase nc"
    by (simp add: ruleTable_def earlierClasses_def ruleNames_def)
  show "getStreamFriendlyMessage error = Inr ''Network error. Please retry.''"
    unfolding friendly_returned [OF r] c by (simp add: startsWith_def)
qed

theorem friendlyMessage_choice_witness:
  "getStreamFriendlyMessage (Object [] [(''name'', String ''RetryError'')]) =
     Inr ''Something went wrong. Please try again.'' \<and>
   getStreamFriendlyMessage (Object [AISDKError, LoadAPIKeyError] []) =
     Inr ''Authentication failed (check API key).'' \<and>
   getStreamFriendlyMessage (Object [APICallError] [(''statusCode'', Number (Finite 429))]) =
     Inr ''Rate limited. Please wait and try again.'' \<and>
   getStreamFriendlyMessage (Object [] [(''code'', String ''ECONNRESET'')]) =
     Inr ''Network error. Please retry.'' \<and>
   getStreamFriendlyMessage (Object [] [(''name'', String ''NoSuchToolError'')]) =
     Inr ''A tool call failed. Please try again.'' \<and>
   getStreamFriendlyMessage throwingName = Inl (Thrown (String ''boom''))"
proof -
  note t = friendlyMessage_choice [THEN conjunct2, THEN conjunct2, THEN conjunct2]
  note defs = quiet_def getString_def earlierClasses_def ruleNames_def networkCode_def
    isObject_def statusByPriority_def numericField_def nestedNumericField_def
  have 1: "getStreamFriendlyMessage (Object [] [(''name'', String ''RetryError'')]) =
     Inr ''Something went wrong. Please try again.''"
    using t [of "Object [] [(''name'', String ''RetryError'')]"] by (simp add: defs)
  have 2: "getStreamFriendlyMessage (Object [AISDKError, LoadAPIKeyError] []) =
     Inr ''Authentication failed (check API key).''"
    using t [of "Object [AISDKError, LoadAPIKeyError] []"] by (simp add: defs)
  have 3: "getStreamFriendlyMessage
             (Object [APICallError] [(''statusCode'', Number (Finite 429))]) =
     Inr ''Rate limited. Please wait and try again.''"
    using t [of "Object [APICallError] [(''statusCode'', Number (Finite 429))]"]
    by (simp add: defs)
  have 4: "getStreamFriendlyMessage (Object [] [(''code'', String ''ECONNRESET'')]) =
     Inr ''Network error. Please retry.''"
    using t [of "Object [] [(''code'', String ''ECONNRESET'')]"] by (simp add: defs)
  have 5: "getStreamFriendlyMessage (Object [] [(''name'', String ''NoSuchToolError'')]) =
     Inr ''A tool call failed. Please try again.''"
    using t [of "Object [] [(''name'', String ''NoSuchToolError'')]"] by (simp add: defs)
  have 6: "getStreamFriendlyMessage throwingName = Inl (Thrown (String ''boom''))"
    using friendlyMessage_choice [of throwingName, THEN conjunct2, THEN conjunct1]
    by (simp add: normalizeAIError_def throwingName_def optChain_def)
  from 1 2 3 4 5 6 show ?thesis by blast
qed
section \<open>The effects of the reporter\<close>

text \<open>
  Claim C9, as stated: the reporter never throws and always emits the log entry. It
  fails: the classification and the reads of \<open>stack\<close> and \<open>cause\<close> stand before the
  \<open>try\<close>, so on an object whose \<open>name\<close> accessor throws the reporter throws, having
  logged and written nothing.
\<close>

theorem handleAIError_throws_counterexample:
  "handleAIError serialize headersSent throwingName \<lparr>trace = [], transport = 0\<rparr> =
     (Some (Thrown (String ''boom'')), \<lparr>trace = [], transport = 0\<rparr>)"
  by (simp add: handleAIError_def normalizeAIError_def throwingName_def optChain_def)

text \<open>
  Claim C9, amended: whenever the classification and the reads of \<open>stack\<close> and \<open>cause\<close>
  return, and so on every input on which nothing throws, the reporter returns normally
  for every behaviour of the response handle. It first emits the log entry, then attempts
  the JSON write \<open>res.status(status).json(payload)\<close>. When both calls succeed nothing else
  is called. When one of them throws, the fallback is attempted exactly once:
  \<open>res.status(status)\<close> is called again and, when that returns,
  \<open>res.end(JSON.stringify(payload))\<close> is called once; what the fallback throws is
  swallowed. What the classification or the reads of \<open>stack\<close> and \<open>cause\<close> throw leaves
  the reporter before anything is logged or written.
\<close>

theorem handleAIError_effects:
  "(\<forall>x. normalizeAIError error = Inl x \<longrightarrow>
      handleAIError JSON_stringify res error w = (Some x, w)) \<and>
   (\<forall>n x. normalizeAIError error = Inr n \<and> optChain error ''stack'' = Inl x \<longrightarrow>
      handleAIError JSON_stringify res error w = (Some x, w)) \<and>
   (\<forall>n st x. normalizeAIError error = Inr n \<and> optChain error ''stack'' = Inr st
        \<and> optChain error ''cause'' = Inl x \<longrightarrow>
      handleAIError JSON_stringify res error w = (Some x, w)) \<and>
   (quiet error \<and> gettable error ''stack'' \<and> gettable error ''cause'' \<longrightarrow>
      (\<exists>n. normalizeAIError error = Inr n)
      \<and> optChain error ''stack'' = Inr (field error ''stack'')
      \<and> optChain error ''cause'' = Inr (field error ''cause'')) \<and>
   (\<forall>n st ca. normalizeAIError error = Inr n \<and> optChain error ''stack'' = Inr st
        \<and> optChain error ''cause'' = Inr ca \<longrightarrow>
      (let s = status n;
           p = \<lparr>error_code = code n, error_name = name n, error_message = message n\<rparr>;
           entry = ConsoleError ''AI Error''
                     \<lparr>log_name = name n, log_code = code n, log_status = status n,
                      log_message = message n, log_stack = st, log_cause = ca\<rparr>;
           r1 = resStatus res s (transport w);
           r2 = resJson res p (snd r1);
           first = (if fst r1 = None then [ResStatus s, ResJson p] else [ResStatus s]);
           r3 = resStatus res s (if fst r1 = None then snd r2 else snd r1);
           r4 = resEnd res (JSON_stringify p) (snd r3);
           fallback = (if fst r3 = None then [ResStatus s, ResEnd (JSON_stringify p)]
                       else [ResStatus s])
       in handleAIError JSON_stringify res error w =
            (None,
             if fst r1 = None \<and> fst r2 = None
             then \<lparr>trace = trace w @ entry # first, transport = snd r2\<rparr>
             else \<lparr>trace = trace w @ entry # first @ fallback,
                   transport = (if fst r3 = None then snd r4 else snd r3)\<rparr>)))"
proof (intro conjI allI impI)
  fix x assume "normalizeAIError error = Inl x"
  then show "handleAIError JSON_stringify res error w = (Some x, w)"
    by (simp add: handleAIError_def)
next
  fix n x assume "normalizeAIError error = Inr n \<and> optChain error ''stack'' = Inl x"
  then show "handleAIError JSON_stringify res error w = (Some x, w)"
    by (simp add: handleAIError_def)
next
  fix n st x
  assume "normalizeAIError error = Inr n \<and> optChain error ''stack'' = Inr st
        \<and> optChain error ''cause'' = Inl x"
  then show "handleAIError JSON_stringify res error w = (Some x, w)"
    by (simp add: handleAIError_def)
next
  assume "quiet error \<and> gettable error ''stack'' \<and> gettable error ''cause''"
  then show "\<exists>n. normalizeAIError error = Inr n"
    by (simp add: normalizeAIError_quiet)
next
  assume "quiet error \<and> gettable error ''stack'' \<and> gettable error ''cause''"
  then show "optChain error ''stack'' = Inr (field error ''stack'')"
    by (simp add: optChain_gettable)
next
  assume "quiet error \<and> gettable error ''stack'' \<and> gettable error ''cause''"
  then show "optChain error ''cause'' = Inr (field error ''cause'')"
    by (simp add: optChain_gettable)
next
  fix n st ca
  assume "normalizeAIError error = Inr n \<and> optChain error ''stack'' = Inr st
        \<and> optChain error ''cause'' = Inr ca"
  then show "let s = status n;
           p = \<lparr>error_code = code n, error_name = name n, error_message = message n\<rparr>;
           entry = ConsoleError ''AI Error''
                     \<lparr>log_name = name n, log_code = code n, log_status = status n,
                      log_message = message n, log_stack = st, log_cause = ca\<rparr>;
           r1 = resStatus res s (transport w);
           r2 = resJson res p (snd r1);
           first = (if fst r1 = None then [ResStatus s, ResJson p] else [ResStatus s]);
           r3 = resStatus res s (if fst r1 = None then snd r2 else snd r1);
           r4 = resEnd res (JSON_stringify p) (snd r3);
           fallback = (if fst r3 = None then [ResStatus s, ResEnd (JSON_stringify p)]
                       else [ResStatus s])
       in handleAIError JSON_stringify res error w =
            (None,
             if fst r1 = None \<and> fst r2 = None
             then \<lparr>trace = trace w @ entry # first, transport = snd r2\<rparr>
             else \<lparr>trace = trace w @ entry # first @ fallback,
                   transport = (if fst r3 = None then snd r4 else snd r3)\<rparr>)"
    by (simp add: handleAIError_def Let_def seqS_def tryCatch_def skip_def
          consoleError_def callStatus_def callJson_def callEnd_def
          split: prod.splits option.splits)
qed

theorem handleAIError_effects_witness:
  "handleAIError serialize headersSent (String ''boom'') \<lparr>trace = [], transport = 0\<rparr> =
   (None,
    \<lparr>trace =
       [ConsoleError ''AI Error''
          \<lparr>log_name = ''Error'', log_code = ''unknown'', log_status = Finite 500,
           log_message = ''Unexpected error'', log_stack = Undefined, log_cause = Undefined\<rparr>,
        ResStatus (Finite 500),
        ResJson \<lparr>error_code = ''unknown'', error_name = ''Error'',
                 error_message = ''Unexpected error''\<rparr>,
        ResStatus (Finite 500),
        ResEnd ''unknown Error Unexpected error''],
     transport = 1\<rparr>)"
proof -
  have n: "normalizeAIError (String ''boom'') =
     Inr \<lparr>status = Finite 500, code = ''unknown'', name = ''Error'',
          message = ''Unexpected error'', retryAfterMs = None\<rparr>"
    by (simp add: normalizeAIError_quiet quiet_def ruleTable_def getString_def networkCode_def
          isObject_def)
  have s: "optChain (String ''boom'') ''stack'' = Inr Undefined"
    "optChain (String ''boom'') ''cause'' = Inr Undefined"
    by (simp_all add: optChain_def)
  from n s have "normalizeAIError (String ''boom'') =
     Inr \<lparr>status = Finite 500, code = ''unknown'', name = ''Error'',
          message = ''Unexpected error'', retryAfterMs = None\<rparr>
     \<and> optChain (String ''boom'') ''stack'' = Inr Undefined
     \<and> optChain (String ''boom'') ''cause'' = Inr Undefined"
    by simp
  from handleAIError_effects
         [of "String ''boom''" serialize headersSent "\<lparr>trace = [], transport = 0\<rparr>",
          THEN conjunct2, THEN conjunct2, THEN conjunct2, THEN conjunct2, rule_format,
          OF this]
  show ?thesis
    by (simp add: Let_def headersSent_def serialize_def)
qed

end
